theory Spec2Isabelle
  imports Main
begin

section \<open>Common data\<close>

text \<open>
  Python exceptions that the modelled code can raise are values of \<open>error\<close>; a function that
  can raise returns \<open>error + 'a\<close> with \<open>Inl\<close> for the exception.
\<close>

datatype error = IndexError | KeyError | FileNotFoundError

text \<open>Decimal rendering of a non-negative Python \<open>int\<close>, as \<open>"{}".format(n)\<close> gives it.\<close>

definition digits :: string where
  "digits = ''0123456789''"

fun str_nat :: "nat \<Rightarrow> string" where
  "str_nat n = (if n < 10 then [digits ! n] else str_nat (n div 10) @ [digits ! (n mod 10)])"

declare str_nat.simps [simp del]

section \<open>autospec.py: the convergence driver\<close>

text \<open>
  \<open>build.Build\<close> carries the three counters the driver reads: \<open>round\<close>, \<open>must_restart\<close> and
  \<open>success\<close>. The results directory is a map from path to file content; the content type is left
  open.
\<close>

record build =
  round :: nat
  must_restart :: nat
  success :: nat

type_synonym 'a fs = "string \<rightharpoonup> 'a"

text \<open>\<open>os.path.join\<close> with two components.\<close>

definition os_path_join :: "string \<Rightarrow> string \<Rightarrow> string" where
  "os_path_join a b =
     (if b \<noteq> [] \<and> hd b = CHR ''/'' then b
      else if a = [] \<or> last a = CHR ''/'' then a @ b
      else a @ ''/'' @ b)"

text \<open>\<open>os.rename\<close>: raises when the source is missing, replaces an existing destination.\<close>

definition os_rename :: "string \<Rightarrow> string \<Rightarrow> 'a fs \<Rightarrow> error + 'a fs" where
  "os_rename src dest f =
     (case f src of
        None \<Rightarrow> Inl FileNotFoundError
      | Some v \<Rightarrow> Inr ((f(src := None))(dest \<mapsto> v)))"

definition loglist :: "string list" where
  "loglist = [''build'', ''root'', ''srpm-build'', ''srpm-root'', ''mock_srpm'', ''mock_build'']"

definition log_src :: "string \<Rightarrow> string \<Rightarrow> string" where
  "log_src basedir log = basedir @ ''/'' @ log @ ''.log''"

definition log_dest :: "string \<Rightarrow> nat \<Rightarrow> string \<Rightarrow> string" where
  "log_dest basedir iteration log = basedir @ ''/round'' @ str_nat iteration @ ''-'' @ log @ ''.log''"

text \<open>The \<open>for log in loglist\<close> loop of \<open>save_mock_logs\<close>; the first failing rename aborts it.\<close>

fun rename_logs :: "string \<Rightarrow> nat \<Rightarrow> string list \<Rightarrow> 'a fs \<Rightarrow> error + 'a fs" where
  "rename_logs basedir iteration [] f = Inr f"
| "rename_logs basedir iteration (log # logs) f =
     (case os_rename (log_src basedir log) (log_dest basedir iteration log) f of
        Inl e \<Rightarrow> Inl e
      | Inr f' \<Rightarrow> rename_logs basedir iteration logs f')"

definition save_mock_logs :: "string \<Rightarrow> nat \<Rightarrow> 'a fs \<Rightarrow> error + 'a fs" where
  "save_mock_logs path iteration f =
     rename_logs (os_path_join path ''results'') iteration loglist f"

text \<open>
  One pass through the body of the \<open>while 1\<close> loop of \<open>package\<close>, up to the exit test.
  \<open>package.package(...)\<close> (the sandboxed build, \<open>build.py\<close>) and
  \<open>filemanager.clean_directories\<close> (\<open>files.py\<close>) are not part of the sources at hand and are
  parameters. Rewriting the spec file between the two does not touch the counters or the logs.
\<close>

definition iteration ::
  "(build \<times> 'a fs \<Rightarrow> build \<times> 'a fs) \<Rightarrow> (build \<times> 'a fs \<Rightarrow> bool) \<Rightarrow> build \<times> 'a fs \<Rightarrow> build \<times> 'a fs" where
  "iteration package clean_directories s =
     (let s1 = package s
      in if clean_directories s1
         then ((fst s1)\<lparr>must_restart := must_restart (fst s1) + 1\<rparr>, snd s1)
         else s1)"

text \<open>
  The loop itself. It need not terminate for an arbitrary build, so it lives in the option
  monad: \<open>None\<close> is a run that never leaves the loop.
\<close>

partial_function (option) convergence_loop ::
  "(build \<times> 'a fs \<Rightarrow> build \<times> 'a fs) \<Rightarrow> (build \<times> 'a fs \<Rightarrow> bool) \<Rightarrow> string
     \<Rightarrow> build \<times> 'a fs \<Rightarrow> (error + build \<times> 'a fs) option" where
  "convergence_loop package clean_directories download_path s =
     (let s2 = iteration package clean_directories s
      in if round (fst s2) > 20 \<or> must_restart (fst s2) = 0 then Some (Inr s2)
         else (case save_mock_logs download_path (round (fst s2)) (snd s2) of
                 Inl e \<Rightarrow> Some (Inl e)
               | Inr f \<Rightarrow> convergence_loop package clean_directories download_path (fst s2, f)))"



text \<open>
  Modelled from the spec: \<open>Build.package\<close> is missing from the sources. The stand-in is a
  sandboxed build that counts the round, leaves its six logs in \<open>results/\<close> (tagged here with
  the round that wrote them) and reports fixed \<open>must_restart\<close> and \<open>success\<close> values.
\<close>

fun mock_logs :: "string \<Rightarrow> nat \<Rightarrow> string list \<Rightarrow> nat fs \<Rightarrow> nat fs" where
  "mock_logs basedir r [] f = f"
| "mock_logs basedir r (log # logs) f = mock_logs basedir r logs (f(log_src basedir log \<mapsto> r))"

definition mock_build :: "string \<Rightarrow> nat \<Rightarrow> nat \<Rightarrow> build \<times> nat fs \<Rightarrow> build \<times> nat fs" where
  "mock_build path restart ok s =
     ((fst s)\<lparr>round := round (fst s) + 1, must_restart := restart, success := ok\<rparr>,
      mock_logs (os_path_join path ''results'') (round (fst s) + 1) loglist (snd s))"

text \<open>Modelled from the spec: a \<open>clean_directories\<close> that never finds a directory to blacklist.\<close>

definition nothing_to_clean :: "build \<times> nat fs \<Rightarrow> bool" where
  "nothing_to_clean s = False"

definition fresh_build :: build where
  "fresh_build = \<lparr>round = 0, must_restart = 0, success = 0\<rparr>"

section \<open>specfiles.py: quoting of file names\<close>


definition is_space :: "char \<Rightarrow> bool" where
  "is_space c = (let n = (of_char c :: nat) in (9 \<le> n \<and> n \<le> 13) \<or> (28 \<le> n \<and> n \<le> 32))"








section \<open>specfiles.py: the writer and the configuration\<close>

text \<open>
  The spec file under construction is the sequence of calls made on it: \<open>W s\<close> for
  \<open>self._write(s)\<close>, which writes \<open>s\<close> as it is, and \<open>WS s\<close> for \<open>self._write_strip(s)\<close>, which
  hands \<open>s\<close> to the stripping writer of \<open>util\<close>. Every \<open>write_...\<close> method returns the calls it
  makes, in order.
\<close>

datatype wr = W string | WS string

type_synonym stream = "wr list"

text \<open>
  \<open>self.config\<close> is read through three total lookups by name: \<open>config_opts\<close> for the boolean
  options (\<open>self.config.config_opts["use_avx2"]\<close>), \<open>config_lines\<close> for the attributes that hold
  a list of lines (\<open>self.config.install_macro\<close>), \<open>config_str\<close> for those that hold a string
  (\<open>self.config.subdir\<close>); \<open>autoreconf\<close> is \<open>self.config.autoreconf\<close>. The remaining fields are attributes of the \<open>Specfile\<close> object and of
  its \<open>requirements\<close>. The list \<open>self.config.altflags_pgo\<close> is looked up as
  \<open>config_lines s ''altflags_pgo''\<close>, the option of the same name as \<open>config_opts s ''altflags_pgo''\<close>.
\<close>

record specfile =
  config_opts :: "string \<Rightarrow> bool"
  config_lines :: "string \<Rightarrow> string list"
  config_str :: "string \<Rightarrow> string"
  autoreconf :: bool
  name :: string
  license_files :: "string list"
  hashes :: "string \<rightharpoonup> string"
  tests_config :: string
  requirements_extra_cmake :: "string list"
  requirements_extra_cmake_openmpi :: "string list"

abbreviation opt :: "specfile \<Rightarrow> string \<Rightarrow> bool" where
  "opt s k \<equiv> config_opts s k"

abbreviation lns :: "specfile \<Rightarrow> string \<Rightarrow> string list" where
  "lns s k \<equiv> config_lines s k"

abbreviation cstr :: "specfile \<Rightarrow> string \<Rightarrow> string" where
  "cstr s k \<equiv> config_str s k"

text \<open>\<open>for line in lines: self._write("{}\n".format(line))\<close>\<close>

definition write_lines :: "string list \<Rightarrow> stream" where
  "write_lines ls = map (\<lambda>line. W (line @ ''\<newline>'')) ls"

text \<open>\<open>" ".join(xs)\<close>\<close>

fun join_sp :: "string list \<Rightarrow> string" where
  "join_sp [] = []"
| "join_sp [x] = x"
| "join_sp (x # y # ys) = x @ '' '' @ join_sp (y # ys)"

text \<open>
  Sequencing of writer methods that may raise: the calls are made left to right, and the first
  exception ends the run.
\<close>

definition emit :: "stream \<Rightarrow> error + stream" where
  "emit xs = Inr xs"

fun seqs :: "(error + stream) list \<Rightarrow> error + stream" where
  "seqs [] = Inr []"
| "seqs (Inl e # rs) = Inl e"
| "seqs (Inr xs # rs) = (case seqs rs of Inl e \<Rightarrow> Inl e | Inr ys \<Rightarrow> Inr (xs @ ys))"

text \<open>The attributes computed in \<open>Specfile.__init__\<close>.\<close>

definition extra_cmake :: "specfile \<Rightarrow> string" where
  "extra_cmake s = cstr s ''extra_cmake'' @ '' '' @ join_sp (requirements_extra_cmake s)"

definition extra_cmake_32 :: "specfile \<Rightarrow> string" where
  "extra_cmake_32 s = cstr s ''extra_cmake_32'' @ '' '' @ join_sp (requirements_extra_cmake s)"

definition extra_cmake_64 :: "specfile \<Rightarrow> string" where
  "extra_cmake_64 s = cstr s ''extra_cmake_64'' @ '' '' @ join_sp (requirements_extra_cmake s)"

definition extra_cmake_special :: "specfile \<Rightarrow> string" where
  "extra_cmake_special s = cstr s ''extra_cmake_special'' @ '' '' @ join_sp (requirements_extra_cmake s)"

definition extra_cmake_pgo :: "specfile \<Rightarrow> string" where
  "extra_cmake_pgo s = cstr s ''extra_cmake_pgo'' @ '' '' @ join_sp (requirements_extra_cmake s)"

definition extra_cmake_special_pgo :: "specfile \<Rightarrow> string" where
  "extra_cmake_special_pgo s =
     cstr s ''extra_cmake_special_pgo'' @ '' '' @ join_sp (requirements_extra_cmake s)"

definition extra_cmake_openmpi :: "specfile \<Rightarrow> string" where
  "extra_cmake_openmpi s =
     cstr s ''extra_cmake_openmpi'' @ '' '' @ join_sp (requirements_extra_cmake_openmpi s)"

section \<open>specfiles.py: the small writer methods\<close>

definition write_proxy_exports :: stream where
  "write_proxy_exports =
     [WS ''unset http_proxy'', WS ''unset https_proxy'', WS ''unset no_proxy'',
      WS ''export SSL_CERT_FILE=/var/cache/ca-certs/anchors/ca-certificates.crt'']"

definition write_build_prepend :: "specfile \<Rightarrow> stream" where
  "write_build_prepend s =
     (if lns s ''build_prepend'' \<noteq> []
      then [WS ''## build_prepend content''] @ write_lines (lns s ''build_prepend'')
           @ [WS ''## build_prepend end'']
      else [])"

text \<open>Here the lines go through \<open>_write_strip\<close>.\<close>

definition write_build_prepend_once :: "specfile \<Rightarrow> stream" where
  "write_build_prepend_once s =
     (if lns s ''build_prepend_once'' \<noteq> []
      then [WS ''## build_prepend_once content'']
           @ map (\<lambda>line. WS (line @ ''\<newline>'')) (lns s ''build_prepend_once'')
           @ [WS ''## build_prepend_once end'']
      else [])"

definition write_build_prepend32 :: "specfile \<Rightarrow> stream" where
  "write_build_prepend32 s =
     (if lns s ''build_prepend32'' \<noteq> []
      then [WS ''## build_prepend32 content''] @ write_lines (lns s ''build_prepend32'')
           @ [WS ''## build_prepend32 end'']
      else [])"

definition write_trystatic :: "specfile \<Rightarrow> stream" where
  "write_trystatic s =
     (if lns s ''trystatic'' \<noteq> []
      then [WS ''## trystatic content''] @ write_lines (lns s ''trystatic'')
           @ [WS ''## trystatic end'']
      else [])"

definition write_make_prepend :: "specfile \<Rightarrow> bool \<Rightarrow> stream" where
  "write_make_prepend s build32 =
     (if \<not> build32 then
        (if lns s ''make_prepend'' \<noteq> []
         then [WS ''## make_prepend content''] @ write_lines (lns s ''make_prepend'')
              @ [WS ''## make_prepend end'']
         else [])
        @ (if lns s ''make_prepend64'' \<noteq> []
           then [WS ''## make_prepend64 content''] @ write_lines (lns s ''make_prepend64'')
                @ [WS ''## make_prepend64 end'']
           else [])
      else [])
     @ (if build32 then
          (if lns s ''make_prepend32'' \<noteq> []
           then [WS ''## make_prepend32 content''] @ write_lines (lns s ''make_prepend32'')
                @ [WS ''## make_prepend32 end'']
           else [])
        else [])"

definition write_build_append :: "specfile \<Rightarrow> stream" where
  "write_build_append s =
     (if lns s ''build_append'' \<noteq> []
      then [WS ''## build_append content''] @ write_lines (lns s ''build_append'')
           @ [WS ''## build_append end\<newline>'']
      else [])"

text \<open>
  \<open>write_lang_c\<close> opens the \<open>%build\<close> section. With \<open>export_epoch\<close> it writes the clock,
  \<open>int(time.time())\<close>; the clock reading is the argument \<open>now\<close>.
\<close>

definition write_lang_c :: "specfile \<Rightarrow> bool \<Rightarrow> nat \<Rightarrow> stream" where
  "write_lang_c s export_epoch now =
     [WS ''%build''] @ write_build_prepend_once s @ write_build_prepend s @ write_proxy_exports
     @ [WS ''export LANG=C.UTF-8'']
     @ (if export_epoch then [WS (''export SOURCE_DATE_EPOCH='' @ str_nat now)] else [])
     @ (if opt s ''asneeded'' then [WS ''unset LD_AS_NEEDED\<newline>''] else [])"

definition write_install_prepend :: "specfile \<Rightarrow> string option \<Rightarrow> stream" where
  "write_install_prepend s build_type =
     (if lns s ''install_prepend'' \<noteq> [] \<and> build_type = None then
        [WS ''## install_prepend content''] @ write_lines (lns s ''install_prepend'')
        @ [WS ''## install_prepend end'']
      else if lns s ''install_prepend_special'' \<noteq> [] \<and> build_type = Some ''special'' then
        [WS ''## install_prepend_special content''] @ write_lines (lns s ''install_prepend_special'')
        @ [WS ''## install_prepend_special end'']
      else if lns s ''install_prepend_special2'' \<noteq> [] \<and> build_type = Some ''special2'' then
        [WS ''## install_prepend_special2 content''] @ write_lines (lns s ''install_prepend_special2'')
        @ [WS ''## install_prepend_special2 end'']
      else if lns s ''install_prepend_32'' \<noteq> [] \<and> build_type = Some ''32bit'' then
        [WS ''## install_prepend_32 content''] @ write_lines (lns s ''install_prepend_32'')
        @ [WS ''## install_prepend_32 end'']
      else if lns s ''install_prepend_special_32'' \<noteq> [] \<and> build_type = Some ''build_special_32'' then
        [WS ''## install_prepend_special_32 content''] @ write_lines (lns s ''install_prepend_special_32'')
        @ [WS ''## install_prepend_special_32 end'']
      else [])"

definition write_check :: "specfile \<Rightarrow> stream" where
  "write_check s =
     (if tests_config s \<noteq> [] \<and> \<not> opt s ''skip_tests'' then
        [WS ''%check'', WS ''export LANG=C.UTF-8''] @ write_proxy_exports
        @ [WS (tests_config s), WS ''\<newline>'']
      else [])"

text \<open>\<open>self.hashes[file]\<close> raises \<open>KeyError\<close> for a license file without a hash.\<close>

fun license_file_lines :: "specfile \<Rightarrow> string list \<Rightarrow> error + stream" where
  "license_file_lines s [] = Inr []"
| "license_file_lines s (file # files) =
     (case hashes s file of
        None \<Rightarrow> Inl KeyError
      | Some file2 \<Rightarrow>
          seqs [emit [WS (''cp '' @ ''%{_builddir}/'' @ file @ '' %{buildroot}/usr/share/package-licenses/''
                        @ name s @ ''/'' @ file2 @ ''\<newline>'')],
                license_file_lines s files])"

definition write_license_files :: "specfile \<Rightarrow> error + stream" where
  "write_license_files s =
     (if length (license_files s) > 0 then
        seqs [emit [WS (''mkdir -p %{buildroot}/usr/share/package-licenses/'' @ name s)],
              license_file_lines s (license_files s)]
      else emit [])"

text \<open>\<open>xs and xs[0]\<close>: a non-empty list whose first line is not empty.\<close>

definition first_set :: "string list \<Rightarrow> bool" where
  "first_set ls = (ls \<noteq> [] \<and> hd ls \<noteq> [])"

definition unset_flags_32 :: stream where
  "unset_flags_32 =
     [WS ''unset CFLAGS'', WS ''unset CXXFLAGS'', WS ''unset FCFLAGS'', WS ''unset FFLAGS'',
      WS ''unset LDFLAGS'', WS ''unset LINKFLAGS'', WS ''unset ASFLAGS'',
      WS ''unset LD_LIBRARY_PATH'', WS ''unset LIBRARY_PATH'']"

definition pkg_config_path_32 :: wr where
  \<open>pkg_config_path_32 = WS ''export PKG_CONFIG_PATH="/usr/lib32/pkgconfig:/usr/share/pkgconfig"''\<close>

definition unset_flags_default_32 :: stream where
  "unset_flags_default_32 =
     [WS ''unset LD_LIBRARY_PATH'', WS ''unset LIBRARY_PATH'', WS ''unset CPATH'',
      WS ''unset ASFLAGS'', WS ''unset CFLAGS'', WS ''unset CXXFLAGS'', WS ''unset FCFLAGS'',
      WS ''unset FFLAGS'', WS ''unset LDFLAGS'', WS ''unset LINKFLAGS'']"

definition write_32bit_exports :: "specfile \<Rightarrow> stream" where
  \<open>write_32bit_exports s =
     (if opt s ''fsalt1_32'' \<and> \<not> opt s ''altflags_pgo_32'' then
        (if first_set (lns s ''altflags1_32f'') then
           [WS ''## altflags1_32f content''] @ unset_flags_32 @ [pkg_config_path_32]
           @ write_lines (lns s ''altflags1_32f'') @ [WS ''## altflags1_32f end'']
         else if first_set (lns s ''altflags1_32'') then
           [WS ''## altflags1_32 content''] @ unset_flags_32 @ [pkg_config_path_32]
           @ write_lines (lns s ''altflags1_32'') @ [WS ''## altflags1_32 end'']
         else [])
      else if opt s ''use_clang'' then
        [WS ''export CC=clang'', WS ''export CXX=clang++''] @ unset_flags_default_32
        @ [pkg_config_path_32,
           WS ''export ASFLAGS="--32"'',
           WS ''export CFLAGS="-O2 -pipe -march=native -mtune=native -m32 -mstackrealign"'',
           WS ''export ASMFLAGS="-O2 -pipe -march=native -mtune=native -m32 -mstackrealign"'',
           WS ''export CXXFLAGS="-O2 -fvisibility-inlines-hidden -pipe -march=native -mtune=native -m32 -mstackrealign"'',
           WS ''export FCFLAGS="-O2 -fvisibility-inlines-hidden -pipe -march=native -mtune=native -m32 -mstackrealign"'',
           WS ''export FFLAGS="-O2 -fvisibility-inlines-hidden -pipe -march=native -mtune=native -m32 -mstackrealign"'',
           WS ''export LDFLAGS="-O2 -pipe -march=native -mtune=native -m32 -mstackrealign"'']
      else
        [WS ''export AR=gcc-ar'', WS ''export RANLIB=gcc-ranlib'', WS ''export NM=gcc-nm'']
        @ unset_flags_default_32
        @ [pkg_config_path_32,
           WS ''export ASFLAGS="--32"'',
           WS ''export CFLAGS="-O2 -ffat-lto-objects -fuse-linker-plugin -pipe -march=native -mtune=native -m32 -mstackrealign"'',
           WS ''export ASMFLAGS="-O2 -ffat-lto-objects -fuse-linker-plugin -pipe -march=native -mtune=native -m32 -mstackrealign"'',
           WS ''export CXXFLAGS="-O2 -ffat-lto-objects -fuse-linker-plugin -fvisibility-inlines-hidden -pipe -march=native -mtune=native -m32 -mstackrealign"'',
           WS ''export FCFLAGS="-O2 -ffat-lto-objects -fuse-linker-plugin -fvisibility-inlines-hidden -pipe -march=native -mtune=native -m32 -mstackrealign"'',
           WS ''export FFLAGS="-O2 -ffat-lto-objects -fuse-linker-plugin -fvisibility-inlines-hidden -pipe -march=native -mtune=native -m32 -mstackrealign"'',
           WS ''export LDFLAGS="-O2 -ffat-lto-objects -fuse-linker-plugin -pipe -march=native -mtune=native -m32 -mstackrealign"''])\<close>

text \<open>
  One \<open>## tag content ... ## tag end\<close> group of \<open>write_variables\<close>: the first list if it is
  set, else the second if it is set, else nothing.
\<close>

definition flags_group :: "specfile \<Rightarrow> string \<Rightarrow> string \<Rightarrow> stream" where
  "flags_group s k1 k2 =
     (if first_set (lns s k1) then
        [WS (''## '' @ k1 @ '' content'')] @ write_lines (lns s k1) @ [WS (''## '' @ k1 @ '' end'')]
      else if first_set (lns s k2) then
        [WS (''## '' @ k2 @ '' content'')] @ write_lines (lns s k2) @ [WS (''## '' @ k2 @ '' end'')]
      else [])"

definition write_variables :: "specfile \<Rightarrow> string option \<Rightarrow> stream" where
  "write_variables s build_type =
     (if build_type = None then
        (if opt s ''fsalt1'' \<and> \<not> opt s ''altflags_pgo''
         then flags_group s ''altflags1f'' ''altflags1'' else [])
        @ (if opt s ''altflags_pgo'' \<and> \<not> opt s ''fsalt1''
           then flags_group s ''altflags_pgof'' ''altflags_pgo'' else [])
        @ (if opt s ''altflags_pgo_ext'' \<and> \<not> opt s ''altflags_pgo'' \<and> \<not> opt s ''fsalt1''
           then flags_group s ''altflags_pgof'' ''altflags_pgo'' else [])
        @ (if opt s ''altcargo_pgo'' \<and> \<not> opt s ''altcargo1'' \<and> \<not> opt s ''altflags_pgo_ext''
              \<and> \<not> opt s ''altflags_pgo'' \<and> \<not> opt s ''fsalt1''
           then flags_group s ''altflagsrust_pgof'' ''altflagsrust_pgo'' else [])
      else [])
     @ (if build_type = Some ''special'' then
          (if opt s ''fsalt1'' \<and> \<not> opt s ''altflags_pgo''
           then flags_group s ''altflags1_special'' ''altflags1'' else [])
        else [])"

definition ld_library_path :: string where
  "ld_library_path = ''/usr/local/nvidia/lib64:/usr/local/nvidia/lib64/gbm:/usr/local/nvidia/lib64/vdpau:/usr/local/nvidia/lib64/xorg/modules/drivers:/usr/local/nvidia/lib64/xorg/modules/extensions:/usr/local/cuda/lib64:/usr/lib64/haswell:/usr/lib64/dri:/usr/lib64:/usr/lib:/aot/intel/oneapi/compiler/latest/linux/compiler/lib/intel64_lin:/aot/intel/oneapi/compiler/latest/linux/lib:/aot/intel/oneapi/mkl/latest/lib/intel64:/aot/intel/oneapi/tbb/latest/lib/intel64/gcc4.8:/usr/share:/usr/lib64/wine:/usr/local/nvidia/lib32:/usr/local/nvidia/lib32/vdpau:/usr/lib32:/usr/lib32/wine''"

text \<open>The profiling workload between its markers, with the library path reset around it.\<close>

definition payload_group :: "specfile \<Rightarrow> string \<Rightarrow> stream" where
  \<open>payload_group s k =
     [WS (''## '' @ k @ '' start''), WS ''unset LD_LIBRARY_PATH'', WS ''unset LIBRARY_PATH'']
     @ write_lines (lns s k)
     @ [WS (''export LD_LIBRARY_PATH="'' @ ld_library_path @ ''"''),
        WS (''export LIBRARY_PATH="'' @ ld_library_path @ ''"''),
        WS (''## '' @ k @ '' end'')]\<close>

definition write_profile_payload_content :: "specfile \<Rightarrow> string option \<Rightarrow> string option \<Rightarrow> stream" where
  "write_profile_payload_content s pattern build_type =
     (if build_type = None then
        (if lns s ''profile_payload'' \<noteq> [] then payload_group s ''profile_payload'' else [])
      else if build_type = Some ''special'' then
        (if lns s ''profile_payload_special'' \<noteq> [] then payload_group s ''profile_payload_special''
         else if lns s ''profile_payload'' \<noteq> [] then payload_group s ''profile_payload''
         else [])
      else if build_type = Some ''special2'' then
        (if lns s ''profile_payload_special2'' \<noteq> [] then payload_group s ''profile_payload_special2''
         else if lns s ''profile_payload'' \<noteq> [] then payload_group s ''profile_payload''
         else [])
      else [])"

definition generate_flags :: string where
  \<open>generate_flags =
     ''export CFLAGS="${CFLAGS_GENERATE}"\<newline>export CXXFLAGS="${CXXFLAGS_GENERATE}"\<newline>export FFLAGS="${FFLAGS_GENERATE}"\<newline>export FCFLAGS="${FCFLAGS_GENERATE}"\<newline>export LDFLAGS="${LDFLAGS_GENERATE}"\<newline>export ASMFLAGS="${ASMFLAGS_GENERATE}"\<newline>export LIBS="${LIBS_GENERATE}"\<newline>''\<close>

definition use_flags :: string where
  \<open>use_flags =
     ''export CFLAGS="${CFLAGS_USE}"\<newline>export CXXFLAGS="${CXXFLAGS_USE}"\<newline>export FFLAGS="${FFLAGS_USE}"\<newline>export FCFLAGS="${FCFLAGS_USE}"\<newline>export LDFLAGS="${LDFLAGS_USE}"\<newline>export ASMFLAGS="${ASMFLAGS_USE}"\<newline>export LIBS="${LIBS_USE}"\<newline>''\<close>

definition get_profile_generate_flags :: "specfile \<Rightarrow> string" where
  "get_profile_generate_flags s =
     (if first_set (lns s ''profile_payload'') \<and> opt s ''altflags_pgo'' \<and> \<not> opt s ''fsalt1''
      then generate_flags
      else if opt s ''altflags_pgo_ext'' \<and> \<not> opt s ''fsalt1'' then generate_flags
      else [])"

definition get_profile_use_flags :: "specfile \<Rightarrow> string" where
  "get_profile_use_flags s =
     (if first_set (lns s ''profile_payload'') \<and> opt s ''altflags_pgo'' \<and> \<not> opt s ''fsalt1''
      then use_flags
      else if opt s ''altflags_pgo_ext'' \<and> \<not> opt s ''fsalt1'' then use_flags
      else [])"

definition write_install_openmpi :: "specfile \<Rightarrow> stream" where
  "write_install_openmpi s =
     [WS ''module load openmpi'']
     @ (if opt s ''use_ninja''
        then [WS (''%ninja_install_openmpi'' @ '' '' @ cstr s ''extra_make_install'')]
        else [WS (''%make_install_openmpi'' @ '' '' @ cstr s ''extra_make_install'')])
     @ [WS ''module unload openmpi'']"

definition cmake_string :: string where
  \<open>cmake_string =
     ''cmake -G "Unix Makefiles" -DCMAKE_INSTALL_PREFIX=$MPI_ROOT -DCMAKE_INSTALL_SBINDIR=$MPI_BIN ''
     @ [CHR 0x5C] @ ''\<newline>''
     @ ''-DCMAKE_INSTALL_LIBDIR=$MPI_LIB -DCMAKE_INSTALL_INCLUDEDIR=$MPI_INCLUDE -DLIB_INSTALL_DIR=$MPI_LIB ''
     @ [CHR 0x5C] @ ''\<newline>''
     @ ''-DBUILD_SHARED_LIBS:BOOL=ON -DLIB_SUFFIX=64 '' @ [CHR 0x5C] @ ''\<newline>''
     @ ''-DCMAKE_AR=/usr/bin/gcc-ar -DCMAKE_BUILD_TYPE=RelWithDebInfo -DCMAKE_NM=/usr/bin/gcc-nm -DCMAKE_RANLIB=/usr/bin/gcc-ranlib ''
     @ [CHR 0x5C] @ ''\<newline>''\<close>

definition write_cmake_line_openmpi :: "specfile \<Rightarrow> stream" where
  "write_cmake_line_openmpi s =
     [WS (cmake_string @ '' '' @ cstr s ''cmake_srcdir'' @ '' '' @ extra_cmake_openmpi s)]"

section \<open>specfiles.py: \<open>write_make_line\<close> and \<open>write_profile_payload\<close>\<close>

definition pushd_subdir :: "specfile \<Rightarrow> stream" where
  "pushd_subdir s = (if cstr s ''subdir'' \<noteq> [] then [WS (''pushd '' @ cstr s ''subdir'')] else [])"

definition popd_subdir :: "specfile \<Rightarrow> stream" where
  "popd_subdir s = (if cstr s ''subdir'' \<noteq> [] then [WS ''popd''] else [])"

definition macro_group :: "specfile \<Rightarrow> string \<Rightarrow> string \<Rightarrow> stream" where
  "macro_group s k opening =
     [WS (''## '' @ k @ '' '' @ opening)] @ write_lines (lns s k) @ [WS (''## '' @ k @ '' end'')]"

text \<open>
  The make invocation. The first three groups are the same text as \<open>write_trystatic\<close> and
  \<open>write_make_prepend\<close>. For the \<open>special\<close> and \<open>special2\<close> build types without a make macro,
  every branch formats three \<open>{}\<close> fields with two arguments, which raises \<open>IndexError\<close>.
\<close>

definition write_make_line ::
  "specfile \<Rightarrow> bool \<Rightarrow> string option \<Rightarrow> bool option \<Rightarrow> string option \<Rightarrow> error + stream" where
  \<open>write_make_line s build32 build_type pgo pattern =
     seqs
      [emit (write_trystatic s @ write_make_prepend s build32),
       (if build32 \<and> build_type = None then
          (if lns s ''make_macro_32'' = [] then
             (if opt s ''use_ninja'' then
                emit [WS (''ninja --verbose '' @ cstr s ''parallel_build'' @ '' '' @ cstr s ''extra_make''
                          @ '' '' @ cstr s ''extra32_make'')]
              else
                emit [WS (''make '' @ cstr s ''parallel_build'' @ '' '' @ cstr s ''extra_make''
                          @ '' '' @ cstr s ''extra32_make'' @ '' V=1 VERBOSE=1'')])
           else emit (macro_group s ''make_macro_32'' ''content''))
        else if \<not> build32 \<and> build_type = None then
          (if lns s ''make_macro'' = [] then
             (if opt s ''use_ninja'' then
                emit [WS (''ninja --verbose '' @ cstr s ''parallel_build'' @ '' '' @ cstr s ''extra_make''
                          @ '' '' @ cstr s ''extra64_make'')]
              else if pattern = Some ''make'' \<and> pgo = None then
                emit [WS (''make '' @ cstr s ''parallel_build'' @ '' '' @ cstr s ''extra_make''
                          @ '' '' @ cstr s ''extra64_make''
                          @ '' V=1 VERBOSE=1 CFLAGS="${CFLAGS}" ASMFLAGS="${ASMFLAGS}" CXXFLAGS="${CXXFLAGS}" FFLAGS="${FFLAGS}" FCFLAGS="${FCFLAGS}" LDFLAGS="${LDFLAGS}" LIBS+="${LIBS}"'')]
              else
                emit [WS (''make '' @ cstr s ''parallel_build'' @ '' '' @ cstr s ''extra_make''
                          @ '' '' @ cstr s ''extra64_make'' @ '' V=1 VERBOSE=1'')])
           else if pgo = Some True \<and> lns s ''make_macro_pgo'' \<noteq> [] then
             emit (macro_group s ''make_macro_pgo'' ''content'')
           else emit (macro_group s ''make_macro'' ''content''))
        else if \<not> build32 \<and> build_type = Some ''special'' then
          (if lns s ''make_macro_special'' = [] then Inl IndexError
           else if pgo = Some True \<and> lns s ''make_macro_pgo_special'' \<noteq> [] then
             emit (macro_group s ''make_macro_pgo_special'' ''content'')
           else emit (macro_group s ''make_macro_special'' ''content''))
        else if \<not> build32 \<and> build_type = Some ''special2'' then
          (if lns s ''make_macro_special2'' = [] then Inl IndexError
           else if pgo = Some True \<and> lns s ''make_macro_pgo_special2'' \<noteq> [] then
             emit (macro_group s ''make_macro_pgo_special2'' ''content'')
           else emit (macro_group s ''make_macro_special2'' ''content''))
        else emit []),
       emit (if lns s ''make_append'' \<noteq> [] then macro_group s ''make_append'' ''content'' else []),
       emit (if opt s ''ccstats''
             then [WS ''## ccache stats'', WS ''ccache -s || : \<newline>'', WS ''## ccache stats'']
             else []),
       emit (if pgo = Some True \<and> \<not> opt s ''altflags_pgo_ext'' then [WS ''fi''] else [])]\<close>

text \<open>
  The part of \<open>write_profile_payload\<close> that depends on the pattern and the build type: what it
  writes at once, and the strings \<open>init\<close>, \<open>init2\<close> and \<open>post\<close> it sets.
\<close>

definition payload_macro_branch :: "specfile \<Rightarrow> string \<Rightarrow> stream \<times> string \<times> string \<times> string" where
  "payload_macro_branch s k =
     (pushd_subdir s @ [WS (get_profile_generate_flags s)] @ write_build_append s
        @ write_lines (lns s k), [], [], [])"

definition payload_init_branch :: "specfile \<Rightarrow> string \<Rightarrow> stream \<times> string \<times> string \<times> string" where
  "payload_init_branch s init2 = (pushd_subdir s, get_profile_generate_flags s, init2, [])"

definition autogen_macro :: "specfile \<Rightarrow> string" where
  "autogen_macro s = (if opt s ''autogen_simple'' then ''%autogen_simple '' else ''%autogen '')"

definition profile_payload_branch ::
  "specfile \<Rightarrow> string option \<Rightarrow> string option \<Rightarrow> stream \<times> string \<times> string \<times> string" where
  "profile_payload_branch s pattern build_type =
     (if pattern = Some ''configure'' \<and> build_type = Some ''special'' then
        (if lns s ''configure_macro_special'' \<noteq> [] then payload_macro_branch s ''configure_macro_special''
         else payload_init_branch s (''%configure '' @ cstr s ''extra_configure_special''))
      else if pattern = Some ''configure'' \<and> build_type = Some ''special2'' then
        (if lns s ''configure_macro_special2'' \<noteq> [] then payload_macro_branch s ''configure_macro_special2''
         else payload_init_branch s (''%configure '' @ cstr s ''extra_configure_special2''))
      else if pattern = Some ''configure'' \<and> build_type = None then
        (if lns s ''configure_macro'' \<noteq> [] then payload_macro_branch s ''configure_macro''
         else payload_init_branch s
                (''%configure '' @ cstr s ''extra_configure'' @ '' '' @ cstr s ''extra_configure64'' @ '' ''))
      else if pattern = Some ''configure_ac'' \<and> build_type = Some ''special'' then
        payload_init_branch s (''%reconfigure '' @ cstr s ''extra_configure_special'')
      else if pattern = Some ''configure_ac'' \<and> build_type = Some ''special2'' then
        payload_init_branch s (''%reconfigure '' @ cstr s ''extra_configure_special2'')
      else if pattern = Some ''configure_ac'' \<and> build_type = None then
        payload_init_branch s (''%reconfigure '' @ cstr s ''extra_configure64'')
      else if pattern = Some ''autogen'' \<and> build_type = Some ''special'' then
        payload_init_branch s (autogen_macro s @ cstr s ''extra_configure_special'')
      else if pattern = Some ''autogen'' \<and> build_type = Some ''special2'' then
        payload_init_branch s (autogen_macro s @ cstr s ''extra_configure_special2'')
      else if pattern = Some ''autogen'' \<and> build_type = None then
        payload_init_branch s
          (autogen_macro s @ cstr s ''extra_configure'' @ '' '' @ cstr s ''extra_configure64'')
      else if pattern = Some ''make'' then
        (pushd_subdir s, get_profile_generate_flags s, [], get_profile_use_flags s @ '' '')
      else ([], [], [], []))"

definition write_profile_payload :: "specfile \<Rightarrow> string option \<Rightarrow> string option \<Rightarrow> error + stream" where
  "write_profile_payload s pattern build_type =
     (if (lns s ''profile_payload'' = [] \<and> \<not> opt s ''altflags_pgo'') \<or> opt s ''fsalt1'' then emit []
      else
        (let br = profile_payload_branch s pattern build_type;
             init = fst (snd br); init2 = fst (snd (snd br)); post = snd (snd (snd br))
         in seqs
             [emit [WS ''if [ ! -f statuspgo ]; then'', W ''\<newline>echo PGO Phase 1\<newline>''],
              emit (fst br),
              emit (if init \<noteq> [] then
                      [WS init] @ write_build_append s @ (if init2 \<noteq> [] then [WS init2] else [])
                    else []),
              write_make_line s False build_type (Some False) pattern,
              emit [WS ''\<newline>''],
              emit (write_profile_payload_content s pattern build_type),
              emit (if cstr s ''custom_clean_pgo'' \<noteq> []
                    then [WS (cstr s ''custom_clean_pgo'' @ ''\<newline>'')]
                    else [WS ''\<newline>make clean || :\<newline>'']),
              emit (popd_subdir s),
              emit [WS ''echo USED > statuspgo'', WS ''fi'', WS ''if [ -f statuspgo ]; then'',
                    WS ''echo PGO Phase 2\<newline>''],
              emit (if post \<noteq> [] then [WS post] else [])]))"

section \<open>specfiles.py: the \<open>%install\<close> writers\<close>

text \<open>The linking of 32-bit \<open>.pc\<close> files that ends a 32-bit install block.\<close>

definition pkgconfig_links :: "string \<Rightarrow> stream" where
  "pkgconfig_links loop_line =
     [WS ''if [ -d  %{buildroot}/usr/lib32/pkgconfig ]'', WS ''then'',
      W ''    pushd %{buildroot}/usr/lib32/pkgconfig\<newline>'',
      W loop_line,
      W ''    popd\<newline>'',
      WS ''fi'',
      WS ''if [ -d %{buildroot}/usr/share/pkgconfig ]'', WS ''then'',
      WS ''    pushd %{buildroot}/usr/share/pkgconfig'',
      WS ''    for i in *.pc ; do ln -s $i 32$i ; done'',
      WS ''    popd'',
      WS ''fi'',
      WS ''popd'']"

text \<open>The flags line written before a 64-bit install block of \<open>write_make_install\<close>.\<close>

definition make_install_flags :: "specfile \<Rightarrow> stream" where
  "make_install_flags s =
     (if opt s ''altflags_pgo_ext'' then
        (if \<not> opt s ''altflags_pgo_ext_phase'' then [W (get_profile_generate_flags s)]
         else [W (get_profile_use_flags s)])
      else [W (get_profile_use_flags s)])"

definition make_install_32 :: "specfile \<Rightarrow> stream" where
  "make_install_32 s =
     write_32bit_exports s @ write_install_prepend s (Some ''32bit'')
     @ (if lns s ''install_macro_32'' \<noteq> [] then macro_group s ''install_macro_32'' ''start''
        else [WS (''pushd ../build32/'' @ cstr s ''subdir''),
              WS (''%make_install32 '' @ cstr s ''extra_make32_install'')]
             @ pkgconfig_links ''    for i in *.pc ; do ln -s $i 32$i ; done\<newline>'')
     @ (if opt s ''build_special_32'' then
          write_32bit_exports s @ write_install_prepend s (Some ''build_special_32'')
          @ (if lns s ''install_macro_build_special_32'' \<noteq> []
             then macro_group s ''install_macro_build_special_32'' ''start''
             else [WS (''pushd ../build-special-32/'' @ cstr s ''subdir''),
                   (if cstr s ''extra_make_install_special_32'' \<noteq> []
                    then WS (''%make_install32 '' @ cstr s ''extra_make_install_special_32'')
                    else WS (''%make_install32 '' @ cstr s ''extra_make32_install''))]
                  @ pkgconfig_links ''    for i in *.pc ; do ln -s $i 32$i || :; done\<newline>'')
        else [])"

definition make_install_avx512 :: "specfile \<Rightarrow> stream" where
  "make_install_avx512 s =
     (if lns s ''install_macro_512'' \<noteq> [] then macro_group s ''install_macro_512'' ''start''
      else [WS (''pushd ../buildavx512/'' @ cstr s ''subdir''),
            WS (''%make_install_avx512 '' @ cstr s ''extra_make_install'' @ ''\<newline>''),
            WS ''popd''])"

definition make_install_avx2 :: "specfile \<Rightarrow> stream" where
  "make_install_avx2 s =
     (if lns s ''install_macro_avx2'' \<noteq> [] then macro_group s ''install_macro_avx2'' ''start''
      else [WS (''pushd ../buildavx2/'' @ cstr s ''subdir''),
            WS (''%make_install_avx2 '' @ cstr s ''extra_make_install'' @ ''\<newline>''),
            WS ''popd''])"

definition make_install_openmpi :: "specfile \<Rightarrow> stream" where
  "make_install_openmpi s =
     (if lns s ''install_macro_openmpi'' \<noteq> [] then
        [W ''## install_macro_openmpi start''] @ write_lines (lns s ''install_macro_openmpi'')
        @ [W ''## install_macro_openmpi end'']
      else [WS (''pushd ../build-openmpi/'' @ cstr s ''subdir'')] @ write_install_openmpi s
           @ [WS ''popd''])"

definition make_install_special :: "specfile \<Rightarrow> stream" where
  "make_install_special s =
     write_variables s (Some ''special'') @ make_install_flags s
     @ write_install_prepend s (Some ''special'')
     @ (if lns s ''install_macro_build_special'' \<noteq> [] then
          [W ''## install_macro_build_special start\<newline>'']
          @ write_lines (lns s ''install_macro_build_special'')
          @ [W ''## install_macro_build_special end\<newline>'']
        else [WS (''pushd ../build-special/'' @ cstr s ''subdir''),
              WS (''%make_install_special '' @ cstr s ''extra_make_install_special'' @ ''\<newline>''),
              WS ''popd''])"

definition make_install_special2 :: "specfile \<Rightarrow> stream" where
  "make_install_special2 s =
     write_variables s None @ make_install_flags s
     @ write_install_prepend s (Some ''special2'')
     @ (if lns s ''install_macro_build_special2'' \<noteq> []
        then macro_group s ''install_macro_build_special2'' ''start''
        else [WS (''pushd ../build-special2/'' @ cstr s ''subdir''),
              WS (''%make_install_special2 '' @ cstr s ''extra_make_install_special2'' @ ''\<newline>''),
              WS ''popd''])"

definition make_install_default64 :: "specfile \<Rightarrow> stream" where
  "make_install_default64 s =
     write_variables s None @ make_install_flags s @ write_install_prepend s None
     @ pushd_subdir s
     @ (if lns s ''install_macro'' \<noteq> [] then macro_group s ''install_macro'' ''start''
        else [WS (''%make_install '' @ cstr s ''extra_make_install'' @ ''\<newline>'')])
     @ popd_subdir s"

definition write_make_install :: "specfile \<Rightarrow> nat \<Rightarrow> error + stream" where
  "write_make_install s now =
     seqs
      [emit [WS ''%install'', WS (''export SOURCE_DATE_EPOCH='' @ str_nat now),
             WS ''rm -rf %{buildroot}''],
       write_license_files s,
       emit (if opt s ''32bit'' then make_install_32 s else []),
       emit (if \<not> opt s ''32bit_only'' then
               (if opt s ''use_avx512'' then make_install_avx512 s else [])
               @ (if opt s ''use_avx2'' then make_install_avx2 s else [])
               @ (if opt s ''openmpi'' then make_install_openmpi s else [])
               @ (if opt s ''build_special'' then make_install_special s else [])
               @ (if opt s ''build_special2'' then make_install_special2 s else [])
               @ make_install_default64 s
             else [])]"

text \<open>\<open>write_cmake_install\<close>, block by block.\<close>

definition cmake_install_flags :: "specfile \<Rightarrow> stream" where
  "cmake_install_flags s =
     (if lns s ''profile_payload'' \<noteq> [] \<and> opt s ''altflags_pgo'' \<and> \<not> opt s ''fsalt1'' then
        [W (get_profile_use_flags s)]
      else if opt s ''altflags_pgo_ext'' \<and> \<not> opt s ''altflags_pgo'' \<and> \<not> opt s ''fsalt1'' then
        (if \<not> opt s ''altflags_pgo_ext_phase'' then [W (get_profile_generate_flags s)]
         else [W (get_profile_use_flags s)])
      else [])"

definition install_macro_name :: "specfile \<Rightarrow> string \<Rightarrow> string" where
  "install_macro_name s suffix =
     (if opt s ''use_ninja'' then ''%ninja_install'' @ suffix else ''%make_install'' @ suffix)"

definition cmake_install_32 :: "specfile \<Rightarrow> stream" where
  "cmake_install_32 s =
     write_32bit_exports s @ write_install_prepend s (Some ''32bit'')
     @ (if lns s ''install_macro_32'' \<noteq> [] then macro_group s ''install_macro_32'' ''start''
        else [WS ''pushd clr-build32'',
              WS (install_macro_name s ''32'' @ '' '' @ cstr s ''extra_make32_install'')]
             @ pkgconfig_links ''    for i in *.pc ; do ln -s $i 32$i ; done\<newline>'')"

definition cmake_install_avx512 :: "specfile \<Rightarrow> stream" where
  "cmake_install_avx512 s =
     (if lns s ''install_macro_512'' \<noteq> [] then macro_group s ''install_macro_512'' ''start''
      else [WS ''pushd clr-build-avx512'',
            WS (install_macro_name s ''_avx512'' @ '' '' @ cstr s ''extra_make_install'' @ '' || :\<newline>''),
            WS ''popd''])"

definition cmake_install_avx2 :: "specfile \<Rightarrow> stream" where
  "cmake_install_avx2 s =
     (if lns s ''install_macro_avx2'' \<noteq> [] then macro_group s ''install_macro_avx2'' ''start''
      else [WS ''pushd clr-build-avx2'',
            WS (install_macro_name s ''_avx2'' @ '' '' @ cstr s ''extra_make_install'' @ '' || :\<newline>''),
            WS ''popd''])"

definition cmake_install_openmpi :: "specfile \<Rightarrow> stream" where
  "cmake_install_openmpi s =
     (if lns s ''install_macro_openmpi'' \<noteq> [] then macro_group s ''install_macro_openmpi'' ''start''
      else [WS ''pushd clr-build-openmpi''] @ write_install_openmpi s @ [WS ''popd''])"

definition cmake_install_special :: "specfile \<Rightarrow> stream" where
  "cmake_install_special s =
     write_variables s None @ cmake_install_flags s @ write_install_prepend s (Some ''special'')
     @ (if lns s ''install_macro_build_special'' \<noteq> [] then
          [WS ''## install_macro_build_special start\<newline>'']
          @ write_lines (lns s ''install_macro_build_special'')
          @ [WS ''## install_macro_build_special end\<newline>'']
        else [WS ''pushd clr-build-special'',
              WS (install_macro_name s ''_special'' @ '' '' @ cstr s ''extra_make_install_special''
                  @ '' || :\<newline>''),
              WS ''popd''])"

definition cmake_install_default64 :: "specfile \<Rightarrow> stream" where
  "cmake_install_default64 s =
     write_variables s None @ cmake_install_flags s @ write_install_prepend s None
     @ (if lns s ''install_macro'' \<noteq> [] then macro_group s ''install_macro'' ''start''
        else [WS ''pushd clr-build'',
              WS (install_macro_name s [] @ '' '' @ cstr s ''extra_make_install'' @ ''\<newline>''),
              WS ''popd''])"

definition write_cmake_install :: "specfile \<Rightarrow> nat \<Rightarrow> error + stream" where
  "write_cmake_install s now =
     seqs
      [emit (write_build_append s),
       emit [WS ''%install'', WS (''export SOURCE_DATE_EPOCH='' @ str_nat now),
             WS ''rm -rf %{buildroot}''],
       emit (write_install_prepend s None),
       write_license_files s,
       emit (pushd_subdir s),
       emit (if opt s ''32bit'' then cmake_install_32 s else []),
       emit (if \<not> opt s ''32bit_only'' then
               (if opt s ''use_avx512'' then cmake_install_avx512 s else [])
               @ (if opt s ''use_avx2'' then cmake_install_avx2 s else [])
               @ (if opt s ''openmpi'' then cmake_install_openmpi s else [])
               @ (if opt s ''build_special'' then cmake_install_special s else [])
               @ cmake_install_default64 s
             else []),
       emit (popd_subdir s)]"

section \<open>specfiles.py: \<open>write_cmake_pattern\<close>\<close>

text \<open>The test that selects the in-process two-phase PGO form in \<open>write_cmake_pattern\<close>.\<close>

definition cmake_pgo_inprocess :: "specfile \<Rightarrow> bool" where
  "cmake_pgo_inprocess s =
     (first_set (lns s ''profile_payload'') \<and> opt s ''altflags_pgo'' \<and> \<not> opt s ''fsalt1'')"

text \<open>The test of the \<open>elif\<close> that selects the externally phased form, in every composer.\<close>

definition pgo_ext :: "specfile \<Rightarrow> bool" where
  "pgo_ext s = (opt s ''altflags_pgo_ext'' \<and> \<not> opt s ''altflags_pgo'' \<and> \<not> opt s ''fsalt1'')"

definition cmake_prologue :: "specfile \<Rightarrow> stream" where
  "cmake_prologue s = write_build_prepend s @ write_variables s None @ write_build_append s"

definition cmake_default64_inprocess :: "specfile \<Rightarrow> error + stream" where
  "cmake_default64_inprocess s =
     seqs
      [emit (cmake_prologue s),
       emit [WS ''if [ ! -f statuspgo ]; then'', W ''\<newline>echo PGO Phase 1\<newline>''],
       emit (if get_profile_generate_flags s \<noteq> [] then [WS (get_profile_generate_flags s)] else []),
       emit (if lns s ''cmake_macro'' \<noteq> [] then write_lines (lns s ''cmake_macro'')
             else [WS (''%cmake '' @ cstr s ''cmake_srcdir'' @ '' '' @ extra_cmake s @ '' ''
                       @ extra_cmake_64 s)]),
       write_make_line s False None None None,
       emit [WS ''\<newline>''],
       emit (write_profile_payload_content s (Some ''cmake'') None),
       emit (if cstr s ''custom_clean_pgo'' \<noteq> []
             then [WS (cstr s ''custom_clean_pgo'' @ ''\<newline>'')]
             else [WS ''\<newline>find . -type f,l -not -name '*.gcno' -not -name 'statuspgo*' -delete -print'']),
       emit [WS ''echo USED > statuspgo'', WS ''fi'', WS ''if [ -f statuspgo ]; then'',
             WS ''echo PGO Phase 2\<newline>''],
       emit (if get_profile_use_flags s \<noteq> [] then [WS (get_profile_use_flags s)] else []),
       emit (if lns s ''cmake_macro_pgo'' \<noteq> [] then write_lines (lns s ''cmake_macro_pgo'')
             else if lns s ''cmake_macro'' \<noteq> [] then write_lines (lns s ''cmake_macro'')
             else if cstr s ''extra_cmake_pgo'' \<noteq> []
             then [WS (''%cmake '' @ cstr s ''cmake_srcdir'' @ '' '' @ extra_cmake_pgo s)]
             else []),
       write_make_line s False None None None,
       emit [WS ''fi'', WS ''popd'']]"

definition cmake_default64_ext :: "specfile \<Rightarrow> error + stream" where
  "cmake_default64_ext s =
     (if \<not> opt s ''altflags_pgo_ext_phase'' then
        seqs
         [emit (cmake_prologue s),
          emit [W ''\<newline>echo PGO Phase 1\<newline>''],
          emit (if lns s ''cmake_macro'' \<noteq> [] then write_lines (lns s ''cmake_macro'')
                else [WS (get_profile_generate_flags s @ '' %cmake '' @ cstr s ''cmake_srcdir'' @ '' ''
                          @ extra_cmake s @ '' '' @ extra_cmake_64 s)]),
          write_make_line s False None None None,
          emit (write_profile_payload_content s (Some ''cmake'') None),
          emit [WS ''popd'']]
      else
        seqs
         [emit (cmake_prologue s),
          emit [W ''\<newline>echo PGO Phase 2\<newline>''],
          emit (if lns s ''cmake_macro_pgo'' \<noteq> [] then write_lines (lns s ''cmake_macro_pgo'')
                else if lns s ''cmake_macro'' \<noteq> [] then write_lines (lns s ''cmake_macro'')
                else if cstr s ''extra_cmake_pgo'' \<noteq> []
                then [WS (get_profile_use_flags s @ '' %cmake '' @ cstr s ''cmake_srcdir'' @ '' ''
                          @ extra_cmake_pgo s)]
                else []),
          write_make_line s False None (Some True) None,
          emit [WS ''popd'']])"

definition cmake_default64_plain :: "specfile \<Rightarrow> error + stream" where
  "cmake_default64_plain s =
     seqs
      [emit (cmake_prologue s),
       emit (if lns s ''cmake_macro'' \<noteq> [] then write_lines (lns s ''cmake_macro'')
             else [WS (''%cmake '' @ cstr s ''cmake_srcdir'' @ '' '' @ extra_cmake s @ '' ''
                       @ extra_cmake_64 s)]),
       write_make_line s False None None None,
       emit [WS ''popd'']]"

definition cmake_build_default64 :: "specfile \<Rightarrow> error + stream" where
  "cmake_build_default64 s =
     seqs
      [emit [WS ''mkdir -p clr-build'', WS ''pushd clr-build''],
       (if cmake_pgo_inprocess s then cmake_default64_inprocess s
        else if pgo_ext s then cmake_default64_ext s
        else cmake_default64_plain s)]"

definition cmake_special_inprocess :: "specfile \<Rightarrow> error + stream" where
  "cmake_special_inprocess s =
     seqs
      [emit [WS ''mkdir -p clr-build-special'', WS ''pushd clr-build-special''],
       emit (cmake_prologue s),
       emit [WS ''if [ ! -f statuspgo.special ]; then'', W ''\<newline>echo PGO Phase 1\<newline>''],
       emit (if get_profile_generate_flags s \<noteq> [] then [WS (get_profile_generate_flags s)] else []),
       emit (if lns s ''cmake_macro_special'' \<noteq> [] then write_lines (lns s ''cmake_macro_special'')
             else [WS (''%cmake '' @ cstr s ''cmake_srcdir'' @ '' '' @ extra_cmake_special s)]),
       write_make_line s False None None None,
       emit [WS ''\<newline>''],
       emit (write_profile_payload_content s (Some ''cmake'') (Some ''special'')),
       emit (if cstr s ''custom_clean_pgo'' \<noteq> []
             then [WS (cstr s ''custom_clean_pgo'' @ ''\<newline>'')]
             else [WS ''\<newline>find . -type f,l -not -name '*.gcno' -not -name 'statuspgo*' -delete -print\<newline>'']),
       emit [WS ''echo USED > statuspgo.special\<newline>'', WS ''fi'',
             WS ''if [ -f statuspgo.special ]; then'', WS ''echo PGO Phase 2\<newline>''],
       emit (if get_profile_use_flags s \<noteq> [] then [WS (get_profile_use_flags s)] else []),
       emit (if lns s ''cmake_macro_special'' \<noteq> [] then write_lines (lns s ''cmake_macro_special'')
             else if cstr s ''extra_cmake_special_pgo'' \<noteq> []
             then [WS (''%cmake '' @ cstr s ''cmake_srcdir'' @ '' '' @ extra_cmake_special_pgo s)]
             else [WS (''%cmake '' @ cstr s ''cmake_srcdir'' @ '' '' @ extra_cmake_special s)]),
       write_make_line s False None None None,
       emit [WS ''fi'', WS ''popd'']]"

definition cmake_special_ext :: "specfile \<Rightarrow> error + stream" where
  "cmake_special_ext s =
     (if \<not> opt s ''altflags_pgo_ext_phase'' then
        seqs
         [emit [WS ''mkdir -p clr-build-special'', WS ''pushd clr-build-special''],
          emit (cmake_prologue s),
          emit [W ''\<newline>echo PGO Phase 1\<newline>''],
          emit (if lns s ''cmake_macro_special'' \<noteq> [] then write_lines (lns s ''cmake_macro_special'')
                else [WS (get_profile_generate_flags s @ '' %cmake '' @ cstr s ''cmake_srcdir'' @ '' ''
                          @ extra_cmake_special s)]),
          write_make_line s False (Some ''special'') None None,
          emit (write_profile_payload_content s (Some ''cmake'') (Some ''special'')),
          emit [WS ''popd'']]
      else
        seqs
         [emit [WS ''mkdir -p clr-build-special'', WS ''pushd clr-build-special''],
          emit (cmake_prologue s),
          emit [W ''\<newline>echo PGO Phase 2\<newline>''],
          emit (if lns s ''cmake_macro_special'' \<noteq> [] then write_lines (lns s ''cmake_macro_special'')
                else if cstr s ''extra_cmake_special_pgo'' \<noteq> []
                then [WS (get_profile_use_flags s @ '' %cmake '' @ cstr s ''cmake_srcdir'' @ '' ''
                          @ extra_cmake_special_pgo s)]
                else []),
          write_make_line s False (Some ''special'') (Some True) None,
          emit [WS ''popd'']])"

definition cmake_special_plain :: "specfile \<Rightarrow> error + stream" where
  "cmake_special_plain s =
     seqs
      [emit [WS ''mkdir -p clr-build-special'', WS ''pushd clr-build-special''],
       emit (cmake_prologue s),
       emit (if lns s ''cmake_macro_special'' \<noteq> [] then write_lines (lns s ''cmake_macro_special'')
             else [WS (''%cmake '' @ cstr s ''cmake_srcdir'' @ '' '' @ extra_cmake_special s)]),
       write_make_line s False None None None,
       emit [WS ''popd'']]"

definition cmake_build_special :: "specfile \<Rightarrow> error + stream" where
  "cmake_build_special s =
     (if cmake_pgo_inprocess s then cmake_special_inprocess s
      else if pgo_ext s then cmake_special_ext s
      else cmake_special_plain s)"

text \<open>
  The AVX2, AVX512 and OpenMPI blocks. Setting and restoring \<open>need_avx2_flags\<close> and
  \<open>need_avx512_flags\<close> around the prologue has no effect on what is written.
\<close>

definition cmake_build_avx2 :: "specfile \<Rightarrow> error + stream" where
  \<open>cmake_build_avx2 s =
     seqs
      [emit [WS ''mkdir -p clr-build-avx2'', WS ''pushd clr-build-avx2''],
       emit (write_build_prepend s @ write_variables s None),
       emit [WS ''export CFLAGS="$CFLAGS -march=native -mtune=native -m64"'',
             WS ''export CXXFLAGS="$CXXFLAGS -march=native -mtune=native -m64"'',
             WS ''export FFLAGS="$FFLAGS -march=native -mtune=native -m64"'',
             WS ''export FCFLAGS="$FCFLAGS -march=native -mtune=native -m64"'',
             WS (''%cmake '' @ cstr s ''cmake_srcdir'' @ '' '' @ extra_cmake s)],
       write_make_line s False None None None,
       emit [WS ''popd'']]\<close>

definition cmake_build_avx512 :: "specfile \<Rightarrow> error + stream" where
  \<open>cmake_build_avx512 s =
     seqs
      [emit [WS ''mkdir -p clr-build-avx512'', WS ''pushd clr-build-avx512''],
       emit (write_build_prepend s @ write_variables s None),
       emit [WS ''export CFLAGS="$CFLAGS -march=skylake-avx512 -m64 "'',
             WS ''export CXXFLAGS="$CXXFLAGS -march=skylake-avx512 -m64 "'',
             WS ''export FFLAGS="$FFLAGS -march=skylake-avx512 -m64 "'',
             WS ''export FCFLAGS="$FCFLAGS -march=skylake-avx512 -m64 "'',
             WS (''%cmake '' @ cstr s ''cmake_srcdir'' @ '' '' @ extra_cmake s)],
       write_make_line s False None None None,
       emit [WS ''popd'']]\<close>

definition cmake_build_openmpi :: "specfile \<Rightarrow> error + stream" where
  \<open>cmake_build_openmpi s =
     seqs
      [emit [WS ''mkdir -p clr-build-openmpi'', WS ''pushd clr-build-openmpi'',
             WS ''. /usr/share/defaults/etc/profile.d/modules.sh'', WS ''module load openmpi''],
       emit (write_build_prepend s @ write_variables s None),
       emit [WS ''export CFLAGS="$CFLAGS -march=native -mtune=native -m64"'',
             WS ''export CXXFLAGS="$CXXFLAGS -march=native -mtune=native -m64"'',
             WS ''export FCFLAGS="$FCFLAGS -march=native -mtune=native -m64"'',
             WS ''export FFLAGS="$FFLAGS -march=native -mtune=native -m64"''],
       emit (write_cmake_line_openmpi s),
       write_make_line s False None None None,
       emit [WS ''module unload openmpi'', WS ''popd'']]\<close>

definition cmake_build_32 :: "specfile \<Rightarrow> error + stream" where
  "cmake_build_32 s =
     seqs
      [emit [WS ''mkdir -p clr-build32'', WS ''pushd clr-build32''],
       emit (write_build_prepend32 s @ write_32bit_exports s @ write_build_append s),
       emit (if lns s ''cmake_macro_32'' \<noteq> [] then write_lines (lns s ''cmake_macro_32'')
             else [WS (''%cmake '' @ cstr s ''cmake_srcdir''
                       @ '' -DLIB_INSTALL_DIR:PATH=/usr/lib32 -DCMAKE_INSTALL_LIBDIR=/usr/lib32 -DLIB_SUFFIX=32 ''
                       @ extra_cmake s @ '' '' @ extra_cmake_32 s)]),
       write_make_line s True None (Some False) None,
       emit [WS ''unset PKG_CONFIG_PATH'', WS ''popd'']]"

text \<open>
  The \<open>%build\<close> section of the composer, from \<open>write_lang_c\<close> to the closing \<open>popd\<close> of the
  sub-directory.
\<close>

definition write_cmake_build :: "specfile \<Rightarrow> nat \<Rightarrow> error + stream" where
  "write_cmake_build s now =
     seqs
      [emit (write_lang_c s True now),
       emit (pushd_subdir s),
       (if \<not> opt s ''32bit_only'' then
          seqs
           [cmake_build_default64 s,
            (if opt s ''build_special'' then cmake_build_special s else emit []),
            (if opt s ''use_avx2'' then cmake_build_avx2 s else emit []),
            (if opt s ''use_avx512'' then cmake_build_avx512 s else emit []),
            (if opt s ''openmpi'' then cmake_build_openmpi s else emit [])]
        else emit []),
       (if opt s ''32bit'' then cmake_build_32 s else emit []),
       emit (popd_subdir s)]"

text \<open>
  The composer. \<open>write_prep\<close> runs first; what it writes, or the exception it raises, is the
  argument \<open>prep\<close>. The clock is read once for \<open>%build\<close> and once for \<open>%install\<close>.
\<close>

definition write_cmake_pattern ::
  "error + stream \<Rightarrow> specfile \<Rightarrow> nat \<Rightarrow> nat \<Rightarrow> error + stream" where
  "write_cmake_pattern prep s now now' =
     seqs [prep, write_cmake_build s now, emit [WS ''\<newline>''], emit (write_check s),
           write_cmake_install s now']"

section \<open>specfiles.py: \<open>write_configure_pattern\<close>\<close>

text \<open>
  The test that selects the in-process two-phase PGO form in \<open>write_configure_pattern\<close> (and in
  the autogen, make, meson and waf composers): here a non-empty \<open>profile_payload\<close> is enough.
\<close>

definition pgo_inprocess :: "specfile \<Rightarrow> bool" where
  "pgo_inprocess s = (lns s ''profile_payload'' \<noteq> [] \<and> opt s ''altflags_pgo'' \<and> \<not> opt s ''fsalt1'')"

definition gcno_cleanup :: wr where
  "gcno_cleanup = WS ''\<newline>find . -type f,l -name '*.gcno' -delete -print || :\<newline>''"

definition configure_default64_inprocess :: "specfile \<Rightarrow> error + stream" where
  "configure_default64_inprocess s =
     seqs
      [write_profile_payload s (Some ''configure'') None,
       emit (pushd_subdir s),
       emit (if lns s ''configure_macro_pgo'' \<noteq> [] then
               [W (get_profile_use_flags s)] @ write_lines (lns s ''configure_macro_pgo'')
             else if lns s ''configure_macro'' \<noteq> [] then
               [W (get_profile_use_flags s)] @ write_lines (lns s ''configure_macro'')
             else [WS (get_profile_use_flags s @ ''%configure '' @ cstr s ''extra_configure_pgo'')]),
       write_make_line s False None (Some True) (Some ''configure''),
       emit (popd_subdir s),
       emit [WS ''\<newline>'']]"

definition configure_default64_ext :: "specfile \<Rightarrow> error + stream" where
  "configure_default64_ext s =
     (if \<not> opt s ''altflags_pgo_ext_phase'' then
        seqs
         [emit [W ''\<newline>echo PGO Phase 1\<newline>''],
          emit (pushd_subdir s),
          emit (if lns s ''configure_macro'' \<noteq> [] then
                  [WS (get_profile_generate_flags s)] @ write_build_append s
                  @ write_lines (lns s ''configure_macro'')
                else write_build_append s
                     @ [WS (get_profile_generate_flags s @ ''%configure '' @ cstr s ''extra_configure64'')]),
          write_make_line s False None (Some False) (Some ''configure''),
          emit [WS ''\<newline>''],
          emit (write_profile_payload_content s (Some ''configure'') None),
          emit [gcno_cleanup],
          emit (popd_subdir s)]
      else
        seqs
         [emit [W ''\<newline>echo PGO Phase 2\<newline>''],
          emit (pushd_subdir s),
          emit (if lns s ''configure_macro_pgo'' \<noteq> [] then
                  [WS (get_profile_use_flags s)] @ write_build_append s
                  @ write_lines (lns s ''configure_macro_pgo'')
                else write_build_append s
                     @ [WS (get_profile_use_flags s @ ''%configure '' @ cstr s ''extra_configure_pgo'')]),
          write_make_line s False None (Some True) (Some ''configure''),
          emit [WS ''\<newline>''],
          emit (popd_subdir s)])"

definition configure_default64_plain :: "specfile \<Rightarrow> error + stream" where
  "configure_default64_plain s =
     seqs
      [emit (pushd_subdir s),
       emit (write_build_append s),
       emit (if lns s ''configure_macro'' \<noteq> [] then write_lines (lns s ''configure_macro'')
             else [WS (''%configure '' @ cstr s ''extra_configure'' @ '' '' @ cstr s ''extra_configure64'')]),
       write_make_line s False None (Some False) (Some ''configure''),
       emit (popd_subdir s),
       emit [WS ''\<newline>'']]"

definition configure_build_default64 :: "specfile \<Rightarrow> error + stream" where
  "configure_build_default64 s =
     (if pgo_inprocess s then configure_default64_inprocess s
      else if pgo_ext s then configure_default64_ext s
      else configure_default64_plain s)"

definition configure_special_inprocess :: "specfile \<Rightarrow> error + stream" where
  "configure_special_inprocess s =
     seqs
      [write_profile_payload s (Some ''configure'') (Some ''special''),
       emit (pushd_subdir s),
       emit (if lns s ''configure_macro_special_pgo'' \<noteq> [] then
               [W (get_profile_use_flags s)] @ write_build_append s
               @ write_lines (lns s ''configure_macro_special_pgo'')
             else if lns s ''configure_macro_special'' \<noteq> [] then
               [W (get_profile_use_flags s)] @ write_build_append s
               @ write_lines (lns s ''configure_macro_special'')
             else write_build_append s
                  @ [WS (get_profile_use_flags s @ ''%configure ''
                         @ cstr s ''extra_configure_special_pgo'')]),
       write_make_line s False (Some ''special'') (Some True) None,
       emit (popd_subdir s),
       emit [WS ''popd\<newline>'']]"

definition configure_special_ext :: "specfile \<Rightarrow> error + stream" where
  "configure_special_ext s =
     (if \<not> opt s ''altflags_pgo_ext_phase'' then
        seqs
         [emit [W ''\<newline>echo PGO Phase 1\<newline>''],
          emit (pushd_subdir s),
          emit (if lns s ''configure_macro_special'' \<noteq> [] then
                  [WS (get_profile_generate_flags s)] @ write_build_append s
                  @ write_lines (lns s ''configure_macro_special'')
                else write_build_append s
                     @ [WS (get_profile_generate_flags s @ ''%configure ''
                            @ cstr s ''extra_configure_special'')]),
          write_make_line s False (Some ''special'') (Some False) (Some ''configure''),
          emit [WS ''\<newline>''],
          emit (write_profile_payload_content s (Some ''configure'') (Some ''special'')),
          emit [gcno_cleanup],
          emit (popd_subdir s)]
      else
        seqs
         [emit [W ''\<newline>echo PGO Phase 2\<newline>''],
          emit (pushd_subdir s),
          emit (if lns s ''configure_macro_special_pgo'' \<noteq> [] then
                  [WS (get_profile_use_flags s)] @ write_build_append s
                  @ write_lines (lns s ''configure_macro_special_pgo'')
                else write_build_append s
                     @ [WS (get_profile_use_flags s @ ''%configure ''
                            @ cstr s ''extra_configure_special_pgo'')]),
          write_make_line s False (Some ''special'') (Some True) (Some ''configure''),
          emit [WS ''\<newline>''],
          emit (popd_subdir s)])"

definition configure_special_plain :: "specfile \<Rightarrow> error + stream" where
  "configure_special_plain s =
     seqs
      [emit (pushd_subdir s),
       emit (write_build_append s),
       emit (if lns s ''configure_macro_special'' \<noteq> [] then write_lines (lns s ''configure_macro_special'')
             else [WS (''%configure '' @ cstr s ''extra_configure_special'')]),
       write_make_line s False (Some ''special'') (Some False) None,
       emit (popd_subdir s),
       emit [WS ''popd\<newline>'']]"

definition configure_build_special :: "specfile \<Rightarrow> error + stream" where
  "configure_build_special s =
     seqs
      [emit [WS ''pushd ../build-special/''],
       emit (write_build_prepend s @ write_variables s (Some ''special'')),
       (if pgo_inprocess s then configure_special_inprocess s
        else if pgo_ext s then configure_special_ext s
        else configure_special_plain s)]"

definition configure_build_special2 :: "specfile \<Rightarrow> error + stream" where
  "configure_build_special2 s =
     seqs
      [emit [WS (''pushd ../build-special2/'' @ cstr s ''subdir'')],
       emit (write_build_prepend s @ write_variables s None),
       (if pgo_inprocess s then
          seqs
           [write_profile_payload s (Some ''configure'') (Some ''special2''),
            emit (pushd_subdir s),
            emit (if lns s ''configure_macro_special2_pgo'' \<noteq> [] then
                    [W (get_profile_use_flags s)] @ write_lines (lns s ''configure_macro_special2_pgo'')
                  else if lns s ''configure_macro_special2'' \<noteq> [] then
                    [W (get_profile_use_flags s)] @ write_lines (lns s ''configure_macro_special2'')
                  else [WS (get_profile_use_flags s @ ''%configure ''
                            @ cstr s ''extra_configure_special2_pgo'')]),
            write_make_line s False (Some ''special2'') (Some True) None,
            emit (popd_subdir s),
            emit [WS ''popd\<newline>'']]
        else
          seqs
           [emit (pushd_subdir s),
            emit (if lns s ''configure_macro_special2'' \<noteq> [] then
                    [W (get_profile_use_flags s)] @ write_lines (lns s ''configure_macro_special2'')
                  else [WS (''%configure '' @ cstr s ''extra_configure_special2'')]),
            write_make_line s False (Some ''special2'') (Some False) None,
            emit (popd_subdir s),
            emit [WS ''popd\<newline>'']])]"

definition configure_32_args :: string where
  "configure_32_args = '' --libdir=/usr/lib32 --build=i686-generic-linux-gnu --host=i686-generic-linux-gnu --target=i686-clr-linux-gnu''"

definition configure_build_32 :: "specfile \<Rightarrow> error + stream" where
  "configure_build_32 s =
     seqs
      [emit [WS (''pushd ../build32/'' @ cstr s ''subdir'')],
       emit (write_build_prepend32 s @ write_32bit_exports s @ write_build_append s),
       emit (if lns s ''configure_macro_32'' \<noteq> [] then write_lines (lns s ''configure_macro_32'')
             else [WS (''%configure '' @ cstr s ''extra_configure'' @ '' '' @ cstr s ''extra_configure32''
                       @ configure_32_args)]),
       write_make_line s True None (Some False) None,
       emit [WS ''popd''],
       (if opt s ''build_special_32'' then
          seqs
           [emit [WS (''pushd ../build-special-32/'' @ cstr s ''subdir'')],
            emit (write_build_prepend32 s @ write_32bit_exports s @ write_build_append s),
            emit (if lns s ''configure_macro_special_32'' \<noteq> []
                  then write_lines (lns s ''configure_macro_special_32'')
                  else if cstr s ''extra_configure_special_32'' \<noteq> []
                  then [WS (''%configure '' @ cstr s ''extra_configure_special_32'' @ configure_32_args)]
                  else [WS (''%configure '' @ cstr s ''extra_configure32'' @ configure_32_args)]),
            write_make_line s True None (Some False) None,
            emit [WS ''popd\<newline>'']]
        else emit [])]"

definition native_flag_exports :: stream where
  \<open>native_flag_exports =
     [WS ''export CFLAGS="$CFLAGS -m64 -march=native -mtune=native"'',
      WS ''export CXXFLAGS="$CXXFLAGS -m64 -march=native -mtune=native"'',
      WS ''export FFLAGS="$FFLAGS -m64 -march=native -mtune=native"'',
      WS ''export FCFLAGS="$FCFLAGS -m64 -march=native -mtune=native"'',
      WS ''export LDFLAGS="$LDFLAGS -m64 -march=native -mtune=native"'']\<close>

definition configure_build_avx2 :: "specfile \<Rightarrow> error + stream" where
  "configure_build_avx2 s =
     seqs
      [emit [WS ''unset PKG_CONFIG_PATH'', WS (''pushd ../buildavx2/'' @ cstr s ''subdir'')],
       emit (write_build_prepend s),
       emit native_flag_exports,
       emit [WS (''%configure '' @ cstr s ''extra_configure'' @ '' '' @ cstr s ''extra_configure_avx2''
                 @ '' '')],
       write_make_line s False None None None,
       emit [WS ''popd'']]"

definition configure_build_avx512 :: "specfile \<Rightarrow> error + stream" where
  \<open>configure_build_avx512 s =
     seqs
      [emit [WS ''unset PKG_CONFIG_PATH'', WS (''pushd ../buildavx512/'' @ cstr s ''subdir'')],
       emit (write_build_prepend s),
       emit [WS ''export CFLAGS="$CFLAGS -m64 -march=skylake-avx512 -mprefer-vector-width=256"'',
             WS ''export CXXFLAGS="$CXXFLAGS -m64 -march=skylake-avx512 -mprefer-vector-width=256"'',
             WS ''export FFLAGS="$FFLAGS -m64 -march=skylake-avx512 -mprefer-vector-width=256"'',
             WS ''export FCFLAGS="$FCFLAGS -m64 -march=skylake-avx512 -mprefer-vector-width=256"'',
             WS ''export LDFLAGS="$LDFLAGS -m64 -march=skylake-avx512"''],
       emit [WS (''%configure '' @ cstr s ''extra_configure'' @ '' '' @ cstr s ''extra_configure_avx512''
                 @ '' '')],
       write_make_line s False None None None,
       emit [WS ''popd'']]\<close>

definition configure_build_openmpi :: "specfile \<Rightarrow> error + stream" where
  \<open>configure_build_openmpi s =
     seqs
      [emit [WS (''pushd ../build-openmpi/'' @ cstr s ''subdir''),
             WS ''. /usr/share/defaults/etc/profile.d/modules.sh'', WS ''module load openmpi''],
       emit (write_build_prepend s),
       emit (if lns s ''configure_macro_openmpi'' \<noteq> [] then write_lines (lns s ''configure_macro_openmpi'')
             else [WS ''export CFLAGS="$CFLAGS -m64 -march=native -mtune=native"'',
                   WS ''export CXXFLAGS="$CXXFLAGS -m64 -march=native -mtune=native"'',
                   WS ''export FCFLAGS="$FCFLAGS -m64 -march=native -mtune=native"'',
                   WS ''export FFLAGS="$FFLAGS -m64 -march=native -mtune=native"'',
                   WS ''export LDFLAGS="$LDFLAGS -m64 -march=native -mtune=native"'',
                   WS (''./configure '' @ cstr s ''conf_args_openmpi'' @ '' '' @ [CHR 0x5C] @ ''\<newline>''
                       @ cstr s ''extra_configure_openmpi'' @ '' '')]),
       write_make_line s False None None None,
       emit [WS ''module unload openmpi'', WS ''popd'']]\<close>

text \<open>
  The \<open>%build\<close> section of the composer, from \<open>write_lang_c\<close> on. No block is guarded by
  \<open>32bit_only\<close> here.
\<close>

definition write_configure_build :: "specfile \<Rightarrow> nat \<Rightarrow> error + stream" where
  "write_configure_build s now =
     seqs
      [emit (write_lang_c s True now),
       emit (write_build_prepend s @ write_variables s None),
       configure_build_default64 s,
       (if opt s ''build_special'' then configure_build_special s else emit []),
       (if opt s ''build_special2'' then configure_build_special2 s else emit []),
       (if opt s ''32bit'' then configure_build_32 s else emit []),
       (if opt s ''use_avx2'' then configure_build_avx2 s else emit []),
       (if opt s ''use_avx512'' then configure_build_avx512 s else emit []),
       (if opt s ''openmpi'' then configure_build_openmpi s else emit [])]"

text \<open>
  The composer. With \<open>autoreconf\<close> set it hands over to \<open>write_configure_ac_pattern\<close>, whose
  result is the argument \<open>ac\<close>; \<open>prep\<close> is the result of \<open>write_prep\<close>. The clock is read once
  for \<open>%build\<close> and once for \<open>%install\<close>.
\<close>

definition write_configure_pattern ::
  "error + stream \<Rightarrow> error + stream \<Rightarrow> specfile \<Rightarrow> nat \<Rightarrow> nat \<Rightarrow> error + stream" where
  "write_configure_pattern ac prep s now now' =
     (if autoreconf s then ac
      else seqs [prep, write_configure_build s now, emit [WS ''\<newline>''], emit (write_check s),
                 write_make_install s now'])"

section \<open>specfiles.py: \<open>write_waf_pattern\<close>\<close>

definition waf_sd :: wr where
  "waf_sd = WS ''sd -r 'allow_unknown=False' 'allow_unknown=True' waflib/ || :''"

text \<open>
  An \<open>if\<close>/\<open>elif\<close> chain over make macros: the first macro that is set is written between
  its \<open>start\<close> and \<open>end\<close> markers; with none set, the default invocation is written.
\<close>

fun first_macro :: "specfile \<Rightarrow> string list \<Rightarrow> wr \<Rightarrow> stream" where
  "first_macro s [] d = [d]"
| "first_macro s (k # ks) d =
     (if lns s k \<noteq> [] then macro_group s k ''start'' else first_macro s ks d)"

definition waf_build_line :: wr where
  "waf_build_line = WS ''./waf build --verbose --jobs=20 --out=builddir''"

definition waf_build_line_nl :: wr where
  "waf_build_line_nl = WS ''./waf build --verbose --jobs=20 --out=builddir\<newline>''"

definition waf_clean :: "specfile \<Rightarrow> stream" where
  "waf_clean s =
     (if cstr s ''custom_clean_pgo'' \<noteq> [] then [WS (cstr s ''custom_clean_pgo'' @ ''\<newline>'')]
      else [WS ''\<newline>./waf distclean --verbose || :\<newline>''])"

definition pgo_phase_switch :: stream where
  "pgo_phase_switch =
     [WS ''echo USED > statuspgo'', WS ''fi'', WS ''if [ -f statuspgo ]; then'',
      WS ''echo PGO Phase 2\<newline>'']"

definition pgo_phase1_open :: "specfile \<Rightarrow> stream" where
  "pgo_phase1_open s =
     [WS ''if [ ! -f statuspgo ]; then'', W ''\<newline>echo PGO Phase 1\<newline>'']
     @ (if get_profile_generate_flags s \<noteq> [] then [WS (get_profile_generate_flags s)] else [])
     @ write_build_append s"

definition post_flags :: "specfile \<Rightarrow> stream" where
  "post_flags s = (if get_profile_use_flags s \<noteq> [] then [WS (get_profile_use_flags s)] else [])"

definition waf_default64_inprocess :: "specfile \<Rightarrow> stream" where
  "waf_default64_inprocess s =
     write_variables s None @ pgo_phase1_open s
     @ (if lns s ''configure_macro'' \<noteq> [] then
          pushd_subdir s @ [waf_sd] @ write_lines (lns s ''configure_macro'')
          @ write_trystatic s @ write_make_prepend s False
          @ first_macro s [''make_macro''] waf_build_line_nl
          @ write_profile_payload_content s (Some ''waf'') None
          @ waf_clean s @ pgo_phase_switch
          @ write_variables s None @ post_flags s
          @ (if lns s ''configure_macro_pgo'' \<noteq> []
             then [waf_sd] @ write_lines (lns s ''configure_macro_pgo'')
             else [waf_sd] @ write_lines (lns s ''configure_macro''))
          @ write_trystatic s @ write_make_prepend s False
          @ first_macro s [''make_macro_pgo'', ''make_macro''] waf_build_line
          @ [WS ''fi\<newline>'']
          @ popd_subdir s
        else
          [waf_sd,
           WS (''%waf --out=builddir '' @ cstr s ''extra_configure'' @ '' '' @ cstr s ''extra_configure64''
               @ '' || :'')]
          @ write_trystatic s @ write_make_prepend s False
          @ first_macro s [''make_macro''] waf_build_line
          @ [WS ''\<newline>'']
          @ write_profile_payload_content s (Some ''waf'') None
          @ waf_clean s @ pgo_phase_switch
          @ post_flags s
          @ (if cstr s ''extra_configure_pgo'' \<noteq> [] \<or> cstr s ''extra_configure64_pgo'' \<noteq> [] then
               [waf_sd,
                WS (''%waf --out=builddir '' @ cstr s ''extra_configure_pgo'' @ '' ''
                    @ cstr s ''extra_configure64_pgo'' @ '' || :'')]
             else if cstr s ''extra_configure'' \<noteq> [] \<or> cstr s ''extra_configure64'' \<noteq> [] then
               [waf_sd,
                WS (''%waf --out=builddir '' @ cstr s ''extra_configure'' @ '' ''
                    @ cstr s ''extra_configure64'' @ '' || :'')]
             else [])
          @ write_trystatic s @ write_make_prepend s False
          @ first_macro s [''make_macro_pgo'', ''make_macro''] waf_build_line
          @ [WS ''fi\<newline>'']
          @ popd_subdir s)"

definition waf_special_inprocess :: "specfile \<Rightarrow> stream" where
  "waf_special_inprocess s =
     write_variables s None @ [WS (''pushd ../build-special/'' @ cstr s ''subdir'')]
     @ pgo_phase1_open s
     @ (if lns s ''configure_macro_special'' \<noteq> [] then
          [waf_sd] @ write_lines (lns s ''configure_macro_special'')
          @ write_trystatic s @ write_make_prepend s False
          @ first_macro s [''make_macro_special''] waf_build_line_nl
          @ write_profile_payload_content s (Some ''waf'') (Some ''special'')
          @ waf_clean s @ pgo_phase_switch
          @ write_variables s None @ post_flags s
          @ (if lns s ''configure_macro_special_pgo'' \<noteq> []
             then [waf_sd] @ write_lines (lns s ''configure_macro_special_pgo'')
             else write_lines (lns s ''configure_macro_special''))
          @ write_trystatic s @ write_make_prepend s False
          @ first_macro s [''make_macro_pgo_special'', ''make_macro_special''] waf_build_line
          @ [WS ''fi\<newline>'']
          @ popd_subdir s
        else
          [waf_sd, WS (''%waf --out=builddir '' @ cstr s ''extra_configure_special'' @ '' || :'')]
          @ write_trystatic s @ write_make_prepend s False
          @ first_macro s [''make_macro_special'', ''make_macro''] waf_build_line_nl
          @ write_profile_payload_content s (Some ''waf'') (Some ''special'')
          @ waf_clean s @ pgo_phase_switch
          @ post_flags s
          @ (if cstr s ''extra_configure_special_pgo'' \<noteq> [] then
               [waf_sd,
                WS (''%waf --out=builddir '' @ cstr s ''extra_configure_special_pgo'' @ '' || :'')]
             else if cstr s ''extra_configure_special'' \<noteq> [] then
               [waf_sd, WS (''%waf --out=builddir '' @ cstr s ''extra_configure_special'' @ '' || :'')]
             else [])
          @ write_trystatic s @ write_make_prepend s False
          @ first_macro s [''make_macro_pgo_special'', ''make_macro_special'', ''make_macro'']
              waf_build_line
          @ [WS ''fi\<newline>'']
          @ popd_subdir s)"

definition waf_default64_plain :: "specfile \<Rightarrow> stream" where
  "waf_default64_plain s =
     write_variables s None @ pushd_subdir s
     @ [waf_sd,
        WS (''%waf --out=builddir '' @ cstr s ''extra_configure'' @ '' '' @ cstr s ''extra_configure64''
            @ '' || :'')]
     @ write_trystatic s @ write_make_prepend s False
     @ first_macro s [''make_macro''] waf_build_line_nl
     @ popd_subdir s"

definition waf_build_avx :: "specfile \<Rightarrow> stream" where
  "waf_build_avx s =
     [waf_sd,
      WS (''%waf --out=builddiravx2 '' @ cstr s ''extra_configure'' @ '' '' @ cstr s ''extra_configure64''
          @ '' || :'')]
     @ write_trystatic s @ write_make_prepend s False
     @ [WS ''./waf build --verbose --jobs=20 --out=builddiravx2'']
     @ (if opt s ''use_avx512'' then
          [waf_sd,
           WS (''%waf --out=builddiravx512 '' @ cstr s ''extra_configure'' @ '' ''
               @ cstr s ''extra_configure64'' @ '' || :''),
           WS ''./waf build --verbose --jobs=20 --out=builddiravx512'']
          @ popd_subdir s
        else [])"

definition waf_build_32 :: "specfile \<Rightarrow> stream" where
  "waf_build_32 s =
     [WS (''pushd ../build32/'' @ cstr s ''subdir'')]
     @ write_build_prepend32 s @ write_32bit_exports s @ write_build_append s
     @ [waf_sd,
        WS (''%waf --out=builddir '' @ cstr s ''extra_configure'' @ '' '' @ cstr s ''extra_configure32''
            @ '' || :'')]
     @ write_trystatic s @ write_make_prepend s True
     @ [waf_build_line, WS ''popd'']"

text \<open>The \<open>%build\<close> section of the composer, from \<open>write_lang_c\<close> to the last \<open>write_build_append\<close>.\<close>

definition write_waf_build :: "specfile \<Rightarrow> nat \<Rightarrow> stream" where
  "write_waf_build s now =
     write_lang_c s True now @ write_build_prepend s
     @ (if pgo_inprocess s then
          waf_default64_inprocess s
          @ (if opt s ''build_special'' then waf_special_inprocess s else [])
        else waf_default64_plain s)
     @ (if opt s ''use_avx2'' then waf_build_avx s else [])
     @ (if opt s ''32bit'' then waf_build_32 s else [])
     @ write_build_append s"

definition waf_install_32 :: "specfile \<Rightarrow> stream" where
  "waf_install_32 s =
     [WS (''pushd ../build32/'' @ cstr s ''subdir''),
      WS (''%waf_install -- --verbose '' @ cstr s ''extra_make_install'' @ '' ''
          @ cstr s ''extra_make32_install''),
      WS ''if [ -d  %{buildroot}/usr/lib32/pkgconfig ]'', WS ''then'',
      WS ''    pushd %{buildroot}/usr/lib32/pkgconfig\<newline>'',
      WS ''    for i in *.pc ; do ln -s $i 32$i ; done'',
      WS ''    popd'',
      WS ''fi'',
      WS ''if [ -d %{buildroot}/usr/share/pkgconfig ]'', WS ''then'',
      WS ''    pushd %{buildroot}/usr/share/pkgconfig'',
      WS ''    for i in *.pc ; do ln -s $i 32$i ; done'',
      WS ''    popd'',
      WS ''fi'',
      WS ''popd'']"

text \<open>The \<open>%install\<close> section of the composer.\<close>

definition write_waf_install :: "specfile \<Rightarrow> error + stream" where
  "write_waf_install s =
     seqs
      [emit [WS ''%install''],
       emit (write_install_prepend s None),
       write_license_files s,
       emit (if opt s ''32bit'' then waf_install_32 s else []),
       emit (if opt s ''use_avx512'' then
               pushd_subdir s
               @ [WS (''%waf_install -- --verbose --out=builddiravx512 '' @ cstr s ''extra_make_install'')]
               @ popd_subdir s
             else []),
       emit (if opt s ''use_avx2'' then
               pushd_subdir s
               @ [WS (''%waf_install -- --verbose --out=builddiravx2 '' @ cstr s ''extra_make_install'')]
               @ popd_subdir s
             else []),
       emit (if opt s ''build_special'' then
               [WS (''pushd ../build-special/'' @ cstr s ''subdir''),
                WS (''%waf_install -- --verbose '' @ cstr s ''extra_make_install_special''),
                WS ''popd'']
               @ popd_subdir s
             else []),
       emit (if lns s ''install_macro'' \<noteq> [] then macro_group s ''install_macro'' ''start''
             else pushd_subdir s
                  @ [WS (''%waf_install -- --verbose '' @ cstr s ''extra_make_install'')]
                  @ popd_subdir s)]"

definition write_waf_pattern :: "error + stream \<Rightarrow> specfile \<Rightarrow> nat \<Rightarrow> error + stream" where
  "write_waf_pattern prep s now =
     seqs [prep, emit (write_waf_build s now), emit [WS ''\<newline>''], emit (write_check s),
           write_waf_install s]"

section \<open>Notions used in the statements\<close>



definition empty_results :: "nat fs" where
  "empty_results = Map.empty"

text \<open>
  Configurations for concrete runs: everything unset in \<open>plain_spec\<close>; \<open>with_opts\<close> sets exactly
  the listed options, \<open>with_str\<close> and \<open>with_lines\<close> set one attribute each.
\<close>

definition plain_spec :: specfile where
  "plain_spec =
     \<lparr>config_opts = (\<lambda>k. False), config_lines = (\<lambda>k. []), config_str = (\<lambda>k. []),
      autoreconf = False, name = ''pkg'', license_files = [], hashes = Map.empty,
      tests_config = [], requirements_extra_cmake = [], requirements_extra_cmake_openmpi = []\<rparr>"

definition with_opts :: "string list \<Rightarrow> specfile \<Rightarrow> specfile" where
  "with_opts ks s = s\<lparr>config_opts := (\<lambda>k. k \<in> set ks)\<rparr>"

definition with_str :: "string \<Rightarrow> string \<Rightarrow> specfile \<Rightarrow> specfile" where
  "with_str k v s = s\<lparr>config_str := (config_str s)(k := v)\<rparr>"

definition with_lines :: "string \<Rightarrow> string list \<Rightarrow> specfile \<Rightarrow> specfile" where
  "with_lines k v s = s\<lparr>config_lines := (config_lines s)(k := v)\<rparr>"

text \<open>The line that records the clock.\<close>

definition epoch_line :: "nat \<Rightarrow> wr" where
  "epoch_line t = WS (''export SOURCE_DATE_EPOCH='' @ str_nat t)"

text \<open>
  Directory-stack directives in a stream, read without the white space around the text of a
  call: a line entering a directory, a line leaving one.
\<close>

definition trim :: "string \<Rightarrow> string" where
  "trim l = rev (dropWhile is_space (rev (dropWhile is_space l)))"

fun text_of :: "wr \<Rightarrow> string" where
  "text_of (WS l) = l"
| "text_of (W l) = l"

definition is_pushd :: "wr \<Rightarrow> bool" where
  "is_pushd w = (take 6 (trim (text_of w)) = ''pushd '')"

definition is_popd :: "wr \<Rightarrow> bool" where
  "is_popd w = (trim (text_of w) = ''popd'')"

definition dir_lines :: "stream \<Rightarrow> stream" where
  "dir_lines out = filter (\<lambda>w. is_pushd w \<or> is_popd w) out"

definition pushds :: "stream \<Rightarrow> nat" where
  "pushds out = length (filter is_pushd out)"

definition popds :: "stream \<Rightarrow> nat" where
  "popds out = length (filter is_popd out)"

text \<open>
  The depth of the directory stack after each line, or \<open>None\<close> as soon as a line leaves a
  directory that no earlier line has entered.
\<close>

fun dir_depth :: "nat \<Rightarrow> stream \<Rightarrow> nat option" where
  "dir_depth d [] = Some d"
| "dir_depth d (w # ws) =
     (if is_pushd w then dir_depth (Suc d) ws
      else if is_popd w then (case d of 0 \<Rightarrow> None | Suc d' \<Rightarrow> dir_depth d' ws)
      else dir_depth d ws)"

definition waf_avx_spec :: specfile where
  "waf_avx_spec = with_str ''subdir'' ''src'' (with_opts [''use_avx2'', ''use_avx512''] plain_spec)"

text \<open>
  Streams made of lines taken from the configuration and of the \<open>## ...\<close> marker lines around
  them.
\<close>

fun is_mark :: "wr \<Rightarrow> bool" where
  "is_mark (WS x) = (take 3 x = ''## '')"
| "is_mark (W x) = True"

definition marks_only :: "stream \<Rightarrow> bool" where
  "marks_only out = list_all is_mark out"



section \<open>The variant matrix\<close>

text \<open>
  The build variants of the specification, the option that enables each of them, and the
  exclusion of the 64-bit variants by \<open>32bit_only\<close>.
\<close>

datatype variant = Default64 | ThirtyTwoBit | AVX2 | AVX512 | OpenMPI | Special | Special2

fun enabled :: "specfile \<Rightarrow> variant \<Rightarrow> bool" where
  "enabled s Default64 = True"
| "enabled s ThirtyTwoBit = opt s ''32bit''"
| "enabled s AVX2 = opt s ''use_avx2''"
| "enabled s AVX512 = opt s ''use_avx512''"
| "enabled s OpenMPI = opt s ''openmpi''"
| "enabled s Special = opt s ''build_special''"
| "enabled s Special2 = opt s ''build_special2''"

fun emitted :: "specfile \<Rightarrow> variant \<Rightarrow> bool" where
  "emitted s ThirtyTwoBit = enabled s ThirtyTwoBit"
| "emitted s v = (enabled s v \<and> \<not> opt s ''32bit_only'')"

text \<open>The order of the blocks as the specification gives it.\<close>

definition spec_order :: "variant list" where
  "spec_order = [ThirtyTwoBit, AVX512, AVX2, OpenMPI, Special, Special2, Default64]"

text \<open>The orders in which the \<open>%build\<close> sections are written.\<close>

definition cmake_build_order :: "variant list" where
  "cmake_build_order = [Default64, Special, AVX2, AVX512, OpenMPI, ThirtyTwoBit]"

definition configure_build_order :: "variant list" where
  "configure_build_order = [Default64, Special, Special2, ThirtyTwoBit, AVX2, AVX512, OpenMPI]"

text \<open>The block of a variant in each section. The cmake composer has no \<open>Special2\<close> block.\<close>

fun cmake_build_block :: "specfile \<Rightarrow> variant \<Rightarrow> error + stream" where
  "cmake_build_block s Default64 = cmake_build_default64 s"
| "cmake_build_block s ThirtyTwoBit = cmake_build_32 s"
| "cmake_build_block s AVX2 = cmake_build_avx2 s"
| "cmake_build_block s AVX512 = cmake_build_avx512 s"
| "cmake_build_block s OpenMPI = cmake_build_openmpi s"
| "cmake_build_block s Special = cmake_build_special s"
| "cmake_build_block s Special2 = emit []"

fun configure_build_block :: "specfile \<Rightarrow> variant \<Rightarrow> error + stream" where
  "configure_build_block s Default64 = configure_build_default64 s"
| "configure_build_block s ThirtyTwoBit = configure_build_32 s"
| "configure_build_block s AVX2 = configure_build_avx2 s"
| "configure_build_block s AVX512 = configure_build_avx512 s"
| "configure_build_block s OpenMPI = configure_build_openmpi s"
| "configure_build_block s Special = configure_build_special s"
| "configure_build_block s Special2 = configure_build_special2 s"

fun make_install_block :: "specfile \<Rightarrow> variant \<Rightarrow> error + stream" where
  "make_install_block s Default64 = emit (make_install_default64 s)"
| "make_install_block s ThirtyTwoBit = emit (make_install_32 s)"
| "make_install_block s AVX2 = emit (make_install_avx2 s)"
| "make_install_block s AVX512 = emit (make_install_avx512 s)"
| "make_install_block s OpenMPI = emit (make_install_openmpi s)"
| "make_install_block s Special = emit (make_install_special s)"
| "make_install_block s Special2 = emit (make_install_special2 s)"

fun cmake_install_block :: "specfile \<Rightarrow> variant \<Rightarrow> error + stream" where
  "cmake_install_block s Default64 = emit (cmake_install_default64 s)"
| "cmake_install_block s ThirtyTwoBit = emit (cmake_install_32 s)"
| "cmake_install_block s AVX2 = emit (cmake_install_avx2 s)"
| "cmake_install_block s AVX512 = emit (cmake_install_avx512 s)"
| "cmake_install_block s OpenMPI = emit (cmake_install_openmpi s)"
| "cmake_install_block s Special = emit (cmake_install_special s)"
| "cmake_install_block s Special2 = emit []"

text \<open>A section written block by block: the blocks of the emitted variants, in the given order.\<close>

definition blocks :: "(variant \<Rightarrow> error + stream) \<Rightarrow> (variant \<Rightarrow> bool) \<Rightarrow> variant list \<Rightarrow> (error + stream) list" where
  "blocks blk on order = map blk (filter on order)"

definition thirtytwo_spec :: specfile where
  "thirtytwo_spec = with_opts [''32bit''] plain_spec"


section \<open>Profile-guided builds\<close>






section \<open>The convergence driver: round budget and log archival\<close>

lemma log_src_inj: "log_src base a = log_src base b \<longleftrightarrow> a = b"
  by (simp add: log_src_def)

lemma log_dest_inj: "log_dest base n a = log_dest base n b \<longleftrightarrow> a = b"
  by (simp add: log_dest_def)

lemma rename_logs_general:
  assumes "distinct logs"
    and "\<forall>a\<in>set logs. \<forall>b\<in>set logs. log_src base a \<noteq> log_dest base n b"
    and "\<forall>log\<in>set logs. f (log_src base log) = Some (v log)"
  shows "\<exists>f'. rename_logs base n logs f = Inr f'
          \<and> (\<forall>log\<in>set logs. f' (log_dest base n log) = Some (v log) \<and> f' (log_src base log) = None)
          \<and> (\<forall>x. x \<notin> log_src base ` set logs \<union> log_dest base n ` set logs \<longrightarrow> f' x = f x)"
  using assms
proof (induction logs arbitrary: f)
  case Nil
  then show ?case by simp
next
  case (Cons l logs)
  let ?g = "(f(log_src base l := None))(log_dest base n l \<mapsto> v l)"
  have step: "os_rename (log_src base l) (log_dest base n l) f = Inr ?g"
    using Cons.prems(3) by (simp add: os_rename_def)
  have pres: "\<forall>log\<in>set logs. ?g (log_src base log) = Some (v log)"
    using Cons.prems by (auto simp: log_src_inj)
  from Cons.prems have d: "distinct logs"
    and c: "\<forall>a\<in>set logs. \<forall>b\<in>set logs. log_src base a \<noteq> log_dest base n b" by auto
  from Cons.IH[OF d c pres] obtain f' where
    r: "rename_logs base n logs ?g = Inr f'"
    and a: "\<forall>log\<in>set logs. f' (log_dest base n log) = Some (v log) \<and> f' (log_src base log) = None"
    and o: "\<forall>x. x \<notin> log_src base ` set logs \<union> log_dest base n ` set logs \<longrightarrow> f' x = ?g x"
    by blast
  have "log_dest base n l \<notin> log_src base ` set logs \<union> log_dest base n ` set logs"
    using Cons.prems(1,2) by (auto simp: log_dest_inj)
  then have h1: "f' (log_dest base n l) = Some (v l)" using o by simp
  have "log_src base l \<notin> log_src base ` set logs \<union> log_dest base n ` set logs"
    using Cons.prems(1,2) by (auto simp: log_src_inj)
  moreover have "log_src base l \<noteq> log_dest base n l" using Cons.prems(2) by simp
  ultimately have h2: "f' (log_src base l) = None" using o by simp
  have h3: "\<forall>x. x \<notin> log_src base ` set (l # logs) \<union> log_dest base n ` set (l # logs) \<longrightarrow> f' x = f x"
    using o by auto
  show ?case using step r a h1 h2 h3 by simp
qed

lemma loglist_distinct: "distinct loglist"
  by (simp add: loglist_def)

lemma loglist_cross: "\<forall>a\<in>set loglist. \<forall>b\<in>set loglist. log_src base a \<noteq> log_dest base n b"
  by (simp add: loglist_def log_src_def log_dest_def)

lemma save_mock_logs_archives:
  assumes "\<forall>log \<in> set loglist. f (log_src (os_path_join path ''results'') log) = Some (v log)"
  shows "\<exists>f'. save_mock_logs path n f = Inr f'
          \<and> (\<forall>log \<in> set loglist. f' (log_dest (os_path_join path ''results'') n log) = Some (v log)
               \<and> f' (log_src (os_path_join path ''results'') log) = None)"
  using rename_logs_general[OF loglist_distinct loglist_cross assms]
  unfolding save_mock_logs_def by blast

lemma mock_logs_other: "x \<notin> log_src base ` set logs \<Longrightarrow> mock_logs base r logs f x = f x"
  by (induction logs arbitrary: f) auto

lemma mock_logs_present:
  "log \<in> set logs \<Longrightarrow> mock_logs base r logs f (log_src base log) = Some r"
proof (induction logs arbitrary: f)
  case Nil
  then show ?case by simp
next
  case (Cons l logs)
  show ?case
  proof (cases "log \<in> set logs")
    case True
    then show ?thesis by (simp add: Cons.IH)
  next
    case False
    with Cons.prems have "log = l" by simp
    moreover have "log_src base l \<notin> log_src base ` set logs"
      using False \<open>log = l\<close> by (auto simp: log_src_inj)
    ultimately show ?thesis by (simp add: mock_logs_other)
  qed
qed

lemma iteration_mock:
  "iteration (mock_build path mr ok) nothing_to_clean (b, f) =
     (b\<lparr>round := round b + 1, must_restart := mr, success := ok\<rparr>,
      mock_logs (os_path_join path ''results'') (round b + 1) loglist f)"
  by (simp add: iteration_def mock_build_def nothing_to_clean_def)

lemma loop_exit:
  "20 < round (fst (iteration p c s)) \<or> must_restart (fst (iteration p c s)) = 0 \<Longrightarrow>
     convergence_loop p c path s = Some (Inr (iteration p c s))"
  by (subst convergence_loop.simps) (simp add: Let_def)

lemma loop_continue:
  "\<not> (20 < round (fst (iteration p c s)) \<or> must_restart (fst (iteration p c s)) = 0) \<Longrightarrow>
     convergence_loop p c path s =
       (case save_mock_logs path (round (fst (iteration p c s))) (snd (iteration p c s)) of
          Inl e \<Rightarrow> Some (Inl e)
        | Inr f \<Rightarrow> convergence_loop p c path (fst (iteration p c s), f))"
  by (subst convergence_loop.simps) (simp add: Let_def)




text \<open>
  C9, as the code has it. After an iteration that does not end the loop, the six logs the
  build left in \<open>results/\<close> are renamed to \<open>round<N>-<log>.log\<close> before the next iteration
  starts. After the iteration that ends the loop nothing is renamed: the loop returns the
  results directory as the last build left it.
\<close>

theorem logs_archived_between_rounds:
  "(\<not> (20 < round (fst (iteration p c s)) \<or> must_restart (fst (iteration p c s)) = 0) \<longrightarrow>
      (\<forall>log\<in>set loglist.
          snd (iteration p c s) (log_src (os_path_join path ''results'') log) = Some (v log)) \<longrightarrow>
      (\<exists>f'. convergence_loop p c path s = convergence_loop p c path (fst (iteration p c s), f')
           \<and> (\<forall>log\<in>set loglist.
                 f' (log_dest (os_path_join path ''results'') (round (fst (iteration p c s))) log) = Some (v log)
               \<and> f' (log_src (os_path_join path ''results'') log) = None)))
   \<and> (20 < round (fst (iteration p c s)) \<or> must_restart (fst (iteration p c s)) = 0 \<longrightarrow>
      convergence_loop p c path s = Some (Inr (fst (iteration p c s), snd (iteration p c s))))"
proof (intro conjI impI)
  assume go: "\<not> (20 < round (fst (iteration p c s)) \<or> must_restart (fst (iteration p c s)) = 0)"
    and logs: "\<forall>log\<in>set loglist.
          snd (iteration p c s) (log_src (os_path_join path ''results'') log) = Some (v log)"
  from save_mock_logs_archives[OF logs, of "round (fst (iteration p c s))"]
  obtain f' where f': "save_mock_logs path (round (fst (iteration p c s))) (snd (iteration p c s)) = Inr f'"
    and a: "\<forall>log \<in> set loglist.
        f' (log_dest (os_path_join path ''results'') (round (fst (iteration p c s))) log) = Some (v log)
        \<and> f' (log_src (os_path_join path ''results'') log) = None"
    by blast
  have "convergence_loop p c path s = convergence_loop p c path (fst (iteration p c s), f')"
    using loop_continue[OF go, of path] f' by simp
  with a show "\<exists>f'. convergence_loop p c path s = convergence_loop p c path (fst (iteration p c s), f')
           \<and> (\<forall>log\<in>set loglist.
                 f' (log_dest (os_path_join path ''results'') (round (fst (iteration p c s))) log) = Some (v log)
               \<and> f' (log_src (os_path_join path ''results'') log) = None)"
    by blast
next
  assume "20 < round (fst (iteration p c s)) \<or> must_restart (fst (iteration p c s)) = 0"
  then show "convergence_loop p c path s = Some (Inr (fst (iteration p c s), snd (iteration p c s)))"
    by (simp add: loop_exit)
qed

theorem logs_archived_between_rounds_witness:
  "\<exists>f'. convergence_loop (mock_build ''pkg'' 1 0) nothing_to_clean ''pkg'' (fresh_build, empty_results) =
          convergence_loop (mock_build ''pkg'' 1 0) nothing_to_clean ''pkg''
            (\<lparr>round = 1, must_restart = 1, success = 0\<rparr>, f')
       \<and> f' ''pkg/results/round1-build.log'' = Some 1
       \<and> f' ''pkg/results/build.log'' = None"
proof -
  have logs: "\<forall>log\<in>set loglist.
      snd (iteration (mock_build ''pkg'' 1 0) nothing_to_clean (fresh_build, empty_results))
        (log_src (os_path_join ''pkg'' ''results'') log) = Some 1"
    by (simp add: iteration_mock mock_logs_present fresh_build_def)
  have go: "\<not> (20 < round (fst (iteration (mock_build ''pkg'' 1 0) nothing_to_clean (fresh_build, empty_results)))
      \<or> must_restart (fst (iteration (mock_build ''pkg'' 1 0) nothing_to_clean (fresh_build, empty_results))) = 0)"
    by (simp add: iteration_mock fresh_build_def)
  from logs_archived_between_rounds
    [of "mock_build ''pkg'' 1 0" nothing_to_clean "(fresh_build, empty_results)" "''pkg''" "\<lambda>log. 1",
      THEN conjunct1, THEN mp, THEN mp, OF go logs]
  obtain f' where
    1: "convergence_loop (mock_build ''pkg'' 1 0) nothing_to_clean ''pkg'' (fresh_build, empty_results) =
        convergence_loop (mock_build ''pkg'' 1 0) nothing_to_clean ''pkg''
          (fst (iteration (mock_build ''pkg'' 1 0) nothing_to_clean (fresh_build, empty_results)), f')"
    and 2: "\<forall>log\<in>set loglist.
        f' (log_dest (os_path_join ''pkg'' ''results'')
              (round (fst (iteration (mock_build ''pkg'' 1 0) nothing_to_clean (fresh_build, empty_results)))) log) = Some 1
      \<and> f' (log_src (os_path_join ''pkg'' ''results'') log) = None"
    by blast
  from 2 have "f' ''pkg/results/round1-build.log'' = Some 1 \<and> f' ''pkg/results/build.log'' = None"
    by (simp add: loglist_def iteration_mock fresh_build_def os_path_join_def log_dest_def log_src_def
        str_nat.simps digits_def)
  with 1 show ?thesis by (auto simp: iteration_mock fresh_build_def)
qed

text \<open>
  C9 as stated fails on the last round: a build that succeeds in round 1 ends the loop, and its
  logs stay under their plain names; no \<open>round1-build.log\<close> exists afterwards.
\<close>

theorem final_round_logs_not_archived:
  "convergence_loop (mock_build ''pkg'' 0 1) nothing_to_clean ''pkg'' (fresh_build, empty_results) =
     Some (Inr (\<lparr>round = 1, must_restart = 0, success = 1\<rparr>,
                mock_logs ''pkg/results'' 1 loglist empty_results))
   \<and> mock_logs ''pkg/results'' 1 loglist empty_results ''pkg/results/round1-build.log'' = None
   \<and> mock_logs ''pkg/results'' 1 loglist empty_results ''pkg/results/build.log'' = Some 1"
proof -
  have "convergence_loop (mock_build ''pkg'' 0 1) nothing_to_clean ''pkg'' (fresh_build, empty_results) =
      Some (Inr (iteration (mock_build ''pkg'' 0 1) nothing_to_clean (fresh_build, empty_results)))"
    by (rule loop_exit) (simp add: iteration_mock)
  then show ?thesis
    by (simp add: iteration_mock fresh_build_def os_path_join_def loglist_def log_src_def
        empty_results_def)
qed

section \<open>Quoting of file names\<close>
















section \<open>The recipe writers\<close>




lemma seqs_emit [simp]:
  "seqs (emit xs # rs) = (case seqs rs of Inl e \<Rightarrow> Inl e | Inr ys \<Rightarrow> Inr (xs @ ys))"
  by (simp add: emit_def)


text \<open>Sequencing of writers that cannot fail, and the lines of the marker groups.\<close>

lemma if_emit [simp]: "(if c then emit xs else emit ys) = emit (if c then xs else ys)"
  by simp


lemma W_notin_write_lines [simp]: "WS x \<notin> set (write_lines ls)"
  by (auto simp: write_lines_def)

lemma marks_only_Nil [simp]: "marks_only []"
  by (simp add: marks_only_def)

lemma marks_only_append [simp]: "marks_only (xs @ ys) \<longleftrightarrow> marks_only xs \<and> marks_only ys"
  by (simp add: marks_only_def)

lemma marks_only_Cons [simp]: "marks_only (w # ws) \<longleftrightarrow> is_mark w \<and> marks_only ws"
  by (simp add: marks_only_def)

lemma marks_only_write_lines [simp]: "marks_only (write_lines ls)"
  by (simp add: marks_only_def write_lines_def list_all_iff)

lemma marks_only_if [simp]: "marks_only (if c then xs else ys) \<longleftrightarrow> (if c then marks_only xs else marks_only ys)"
  by simp

lemma marks_only_macro_group [simp]: "marks_only (macro_group s k opening)"
  by (simp add: macro_group_def)

lemma marks_only_flags_group [simp]: "marks_only (flags_group s k1 k2)"
  by (simp add: flags_group_def)

lemma marks_only_write_variables [simp]: "marks_only (write_variables s bt)"
  by (simp add: write_variables_def)

lemma marks_only_write_trystatic [simp]: "marks_only (write_trystatic s)"
  by (simp add: write_trystatic_def)

lemma marks_only_write_make_prepend [simp]: "marks_only (write_make_prepend s b)"
  by (simp add: write_make_prepend_def)

lemma marks_only_write_build_prepend [simp]: "marks_only (write_build_prepend s)"
  by (simp add: write_build_prepend_def)

lemma marks_only_write_build_append [simp]: "marks_only (write_build_append s)"
  by (simp add: write_build_append_def)

lemma marks_only_write_install_prepend [simp]: "marks_only (write_install_prepend s bt)"
  by (simp add: write_install_prepend_def)

lemma marks_only_make_install_flags [simp]: "marks_only (make_install_flags s)"
  by (simp add: make_install_flags_def)





text \<open>\<open>seqs\<close> as a monoid: nested sequences flatten, and writing nothing is the unit.\<close>

lemma seqs_single: "seqs [r] = r"
  by (cases r) simp_all

lemma seqs_split: "seqs (r # r' # r'' # rs) = seqs [r, seqs (r' # r'' # rs)]"
  by (cases r; cases "seqs (r' # r'' # rs)") simp_all

lemma seqs_unit_left: "seqs [emit [], r] = r"
  by (cases r) (simp_all add: emit_def)

lemma seqs_unit_right: "seqs [r, emit []] = r"
  by (cases r) (simp_all add: emit_def)

lemma seqs_assoc: "seqs [seqs [a, b], c] = seqs [a, seqs [b, c]]"
  by (cases a; cases b; cases c) simp_all

lemma emit_append: "emit (xs @ ys) = seqs [emit xs, emit ys]"
  by (simp add: emit_def)

lemmas seqs_norm = seqs_single seqs_split seqs_unit_left seqs_unit_right seqs_assoc

text \<open>The defining equations of the writers, for running them on a given configuration.\<close>

lemmas writer_defs =
  write_lines_def emit_def extra_cmake_def extra_cmake_32_def extra_cmake_64_def
  extra_cmake_special_def extra_cmake_pgo_def extra_cmake_special_pgo_def extra_cmake_openmpi_def
  write_proxy_exports_def write_build_prepend_def write_build_prepend_once_def
  write_build_prepend32_def write_trystatic_def write_make_prepend_def write_build_append_def
  write_lang_c_def write_install_prepend_def write_check_def write_license_files_def
  first_set_def unset_flags_32_def pkg_config_path_32_def unset_flags_default_32_def
  write_32bit_exports_def flags_group_def write_variables_def ld_library_path_def
  payload_group_def write_profile_payload_content_def generate_flags_def use_flags_def
  get_profile_generate_flags_def get_profile_use_flags_def write_install_openmpi_def
  cmake_string_def write_cmake_line_openmpi_def pushd_subdir_def popd_subdir_def macro_group_def
  write_make_line_def payload_macro_branch_def payload_init_branch_def autogen_macro_def
  profile_payload_branch_def write_profile_payload_def pkgconfig_links_def make_install_flags_def
  make_install_32_def make_install_avx512_def make_install_avx2_def make_install_openmpi_def
  make_install_special_def make_install_special2_def make_install_default64_def
  write_make_install_def cmake_install_flags_def install_macro_name_def cmake_install_32_def
  cmake_install_avx512_def cmake_install_avx2_def cmake_install_openmpi_def
  cmake_install_special_def cmake_install_default64_def write_cmake_install_def
  cmake_pgo_inprocess_def pgo_ext_def cmake_prologue_def cmake_default64_inprocess_def
  cmake_default64_ext_def cmake_default64_plain_def cmake_build_default64_def
  cmake_special_inprocess_def cmake_special_ext_def cmake_special_plain_def
  cmake_build_special_def cmake_build_avx2_def cmake_build_avx512_def cmake_build_openmpi_def
  cmake_build_32_def write_cmake_build_def write_cmake_pattern_def pgo_inprocess_def
  gcno_cleanup_def configure_default64_inprocess_def configure_default64_ext_def
  configure_default64_plain_def configure_build_default64_def configure_special_inprocess_def
  configure_special_ext_def configure_special_plain_def configure_build_special_def
  configure_build_special2_def configure_32_args_def configure_build_32_def
  native_flag_exports_def configure_build_avx2_def configure_build_avx512_def
  configure_build_openmpi_def write_configure_build_def write_configure_pattern_def waf_sd_def
  waf_build_line_def waf_build_line_nl_def waf_clean_def pgo_phase_switch_def pgo_phase1_open_def
  post_flags_def waf_default64_inprocess_def waf_special_inprocess_def waf_default64_plain_def
  waf_build_avx_def waf_build_32_def write_waf_build_def waf_install_32_def write_waf_install_def
  write_waf_pattern_def

lemmas spec_defs = plain_spec_def with_opts_def with_str_def with_lines_def

subsection \<open>The clock in the stream\<close>



subsection \<open>Which form of profile-guided build is written\<close>









subsection \<open>The conditional on the marker file\<close>








subsection \<open>The order of the variant blocks\<close>

text \<open>
  Each section is the sequence of its opening lines and of the blocks of the emitted variants,
  in the order of the section.
\<close>

lemma cmake_build_blocks:
  "write_cmake_build s now =
     seqs ([emit (write_lang_c s True now), emit (pushd_subdir s)]
           @ blocks (cmake_build_block s) (emitted s) cmake_build_order
           @ [emit (popd_subdir s)])"
  by (simp add: write_cmake_build_def blocks_def cmake_build_order_def seqs_norm del: seqs_emit)

lemma configure_build_blocks:
  "write_configure_build s now =
     seqs ([emit (write_lang_c s True now), emit (write_build_prepend s @ write_variables s None)]
           @ blocks (configure_build_block s) (enabled s) configure_build_order)"
  by (simp add: write_configure_build_def blocks_def configure_build_order_def seqs_norm del: seqs_emit)


lemma make_install_blocks:
  "write_make_install s now =
     seqs ([emit [WS ''%install'', epoch_line now, WS ''rm -rf %{buildroot}''], write_license_files s]
           @ blocks (make_install_block s) (emitted s) spec_order)"
  by (simp add: write_make_install_def blocks_def spec_order_def epoch_line_def seqs_norm emit_append
      del: seqs_emit if_emit)

lemma cmake_install_blocks:
  "write_cmake_install s now =
     seqs ([emit (write_build_append s),
            emit [WS ''%install'', epoch_line now, WS ''rm -rf %{buildroot}''],
            emit (write_install_prepend s None), write_license_files s, emit (pushd_subdir s)]
           @ blocks (cmake_install_block s) (emitted s) (remove1 Special2 spec_order)
           @ [emit (popd_subdir s)])"
  by (simp add: write_cmake_install_def blocks_def spec_order_def epoch_line_def seqs_norm emit_append
      del: seqs_emit if_emit)

text \<open>
  C5, as the code has it. The \<open>%install\<close> sections write the blocks in the order ThirtyTwoBit,
  AVX512, AVX2, OpenMPI, Special, Special2, Default64 (the cmake one has no Special2 block), each
  when its option is set and, but for ThirtyTwoBit, \<open>32bit_only\<close> is not. The \<open>%build\<close> section
  of the cmake composer writes them in the order Default64, Special, AVX2, AVX512, OpenMPI,
  ThirtyTwoBit; that of the configure composer in the order Default64, Special, Special2,
  ThirtyTwoBit, AVX2, AVX512, OpenMPI, and there \<open>32bit_only\<close> excludes nothing.
\<close>

theorem variant_block_order:
  "write_make_install s now' =
     seqs ([emit [WS ''%install'', epoch_line now', WS ''rm -rf %{buildroot}''], write_license_files s]
           @ blocks (make_install_block s) (emitted s)
               [ThirtyTwoBit, AVX512, AVX2, OpenMPI, Special, Special2, Default64])
   \<and> write_cmake_install s now' =
     seqs ([emit (write_build_append s),
            emit [WS ''%install'', epoch_line now', WS ''rm -rf %{buildroot}''],
            emit (write_install_prepend s None), write_license_files s, emit (pushd_subdir s)]
           @ blocks (cmake_install_block s) (emitted s)
               [ThirtyTwoBit, AVX512, AVX2, OpenMPI, Special, Default64]
           @ [emit (popd_subdir s)])
   \<and> write_cmake_build s now =
     seqs ([emit (write_lang_c s True now), emit (pushd_subdir s)]
           @ blocks (cmake_build_block s) (emitted s)
               [Default64, Special, AVX2, AVX512, OpenMPI, ThirtyTwoBit]
           @ [emit (popd_subdir s)])
   \<and> write_configure_build s now =
     seqs ([emit (write_lang_c s True now), emit (write_build_prepend s @ write_variables s None)]
           @ blocks (configure_build_block s) (enabled s)
               [Default64, Special, Special2, ThirtyTwoBit, AVX2, AVX512, OpenMPI])"
  using make_install_blocks[of s now'] cmake_install_blocks[of s now'] cmake_build_blocks[of s now]
    configure_build_blocks[of s now]
  by (simp add: spec_order_def cmake_build_order_def configure_build_order_def del: seqs_emit if_emit)

text \<open>
  C5 as stated fails for the \<open>%build\<close> section of the cmake composer: with the 32-bit build
  enabled and nothing else configured, the Default64 block comes first and the 32-bit block
  after it.
\<close>

theorem cmake_build_default64_first:
  "write_cmake_build thirtytwo_spec 0 =
     seqs [emit (write_lang_c thirtytwo_spec True 0), cmake_build_default64 thirtytwo_spec,
           cmake_build_32 thirtytwo_spec]
   \<and> write_cmake_build thirtytwo_spec 0 \<noteq>
     seqs ([emit (write_lang_c thirtytwo_spec True 0), emit (pushd_subdir thirtytwo_spec)]
           @ blocks (cmake_build_block thirtytwo_spec) (emitted thirtytwo_spec) spec_order
           @ [emit (popd_subdir thirtytwo_spec)])
   \<and> cmake_build_default64 thirtytwo_spec =
       Inr [WS ''mkdir -p clr-build'', WS ''pushd clr-build'', WS ''%cmake     '',
            WS ''make    V=1 VERBOSE=1'', WS ''popd'']
   \<and> take 14 (projr (write_cmake_build thirtytwo_spec 0)) =
       [WS ''%build'', WS ''unset http_proxy'', WS ''unset https_proxy'', WS ''unset no_proxy'',
        WS ''export SSL_CERT_FILE=/var/cache/ca-certs/anchors/ca-certificates.crt'',
        WS ''export LANG=C.UTF-8'', WS ''export SOURCE_DATE_EPOCH=0'',
        WS ''mkdir -p clr-build'', WS ''pushd clr-build'', WS ''%cmake     '',
        WS ''make    V=1 VERBOSE=1'', WS ''popd'',
        WS ''mkdir -p clr-build32'', WS ''pushd clr-build32'']"
  by (simp add: writer_defs thirtytwo_spec_def spec_defs blocks_def spec_order_def
      str_nat.simps digits_def)

subsection \<open>The default build and \<open>32bit_only\<close>\<close>




subsection \<open>Entering and leaving the source subdirectory\<close>

text \<open>
  The waf composer with \<open>subdir = src\<close>, AVX2 and AVX512 and nothing else configured: the lines
  after the prologue of \<open>write_lang_c\<close>.
\<close>

lemma waf_avx_stream:
  "write_waf_build waf_avx_spec 0 =
     write_lang_c waf_avx_spec True 0 @
     [WS ''pushd src'',
      waf_sd,
      WS ''%waf --out=builddir   || :'',
      WS ''./waf build --verbose --jobs=20 --out=builddir\<newline>'',
      WS ''popd'',
      waf_sd,
      WS ''%waf --out=builddiravx2   || :'',
      WS ''./waf build --verbose --jobs=20 --out=builddiravx2'',
      waf_sd,
      WS ''%waf --out=builddiravx512   || :'',
      WS ''./waf build --verbose --jobs=20 --out=builddiravx512'',
      WS ''popd'']"
  by (simp add: writer_defs waf_avx_spec_def spec_defs)

text \<open>
  C7 does not hold of the waf composer. On that configuration the \<open>%build\<close> section enters
  \<open>src\<close> once, for the default build, and leaves a directory twice: the AVX512 lines end with
  a \<open>popd\<close> that no \<open>pushd\<close> precedes, and the AVX2 and AVX512 commands run outside \<open>src\<close>.
\<close>

theorem waf_avx512_unmatched_popd:
  "dir_lines (write_waf_build waf_avx_spec 0) = [WS ''pushd src'', WS ''popd'', WS ''popd'']
   \<and> pushds (write_waf_build waf_avx_spec 0) = 1
   \<and> popds (write_waf_build waf_avx_spec 0) = 2
   \<and> dir_depth 0 (write_waf_build waf_avx_spec 0) = None"
  unfolding waf_avx_stream
  by (simp add: writer_defs waf_avx_spec_def spec_defs
       dir_lines_def pushds_def popds_def is_pushd_def is_popd_def trim_def is_space_def
       str_nat.simps digits_def)

subsection \<open>Macro overrides\<close>








end
